theory Spec2Isabelle
  imports Complex_Main
begin

text \<open>
  A model of the movie scraper \<open>MoviesFinder\<close> and of its \<open>Logger\<close>: the string
  helpers, the two title-accuracy tests, the resolver for the first site, the matcher for
  the second site and the loop over the input movies. An exception is a value of type
  \<open>error\<close>: a function that may raise returns \<open>error + 'a\<close>, paired with the state
  it leaves behind when it changes the state. The two accuracy ratios, floats in the
  program, are exact rationals here.
\<close>

section \<open>Python strings\<close>

text \<open>
  A Python \<open>str\<close> is a sequence of Unicode code points, so it is modelled as a list of
  natural numbers (the code points). \<open>str\<close> turns an ASCII literal into that form.
\<close>

type_synonym pystr = "nat list"

definition str :: "string \<Rightarrow> pystr" where
  "str s = map of_char s"

text \<open>
  The characters \<open>str.strip()\<close>, \<open>str.isspace()\<close> and \<open>int()\<close> treat as whitespace:
  U+0009..U+000D, U+001C..U+0020, U+0085, U+00A0, U+1680, U+2000..U+200A, U+2028, U+2029,
  U+202F, U+205F, U+3000.
\<close>

definition isspace :: "nat \<Rightarrow> bool" where
  "isspace c \<longleftrightarrow>
     (9 \<le> c \<and> c \<le> 13) \<or> (28 \<le> c \<and> c \<le> 32) \<or> c = 133 \<or> c = 160 \<or> c = 5760 \<or>
     (8192 \<le> c \<and> c \<le> 8202) \<or> c = 8232 \<or> c = 8233 \<or> c = 8239 \<or> c = 8287 \<or> c = 12288"

definition strip :: "pystr \<Rightarrow> pystr" where
  "strip s = rev (dropWhile isspace (rev (dropWhile isspace s)))"

text \<open>
  Character tables are lists of ranges \<open>(first, last)\<close> of code points; the tables of
  this theory are those of Unicode 14.0, the version of CPython 3.11, and list the code
  points from U+0080 on (the ASCII cases are written out in the definitions).
\<close>

definition in_ranges :: "nat \<Rightarrow> (nat \<times> nat) list \<Rightarrow> bool" where
  "in_ranges c rs = list_ex (\<lambda>(a, b). a \<le> c \<and> c \<le> b) rs"

text \<open>
  \<open>str.lower()\<close>. A segment \<open>(lo, hi, step, delta)\<close> of \<open>lower_segments\<close> says
  that every \<open>step\<close>-th code point from \<open>lo\<close> to \<open>hi\<close> has the lowercase
  \<open>c + delta\<close>. U+0130 is the one character with a lowercase of two code points. The
  capital sigma (931) becomes the final sigma (962) when a cased character comes before
  it and none after it, case-ignorable characters being skipped on both sides, and the
  small sigma (963) otherwise; \<open>cased_ranges\<close> lists the cased characters that are not
  case-ignorable.
\<close>

definition lower_segments :: "(nat \<times> nat \<times> nat \<times> int) list" where
  "lower_segments =
    [(192, 214, 1, 32), (216, 222, 1, 32), (256, 302, 2, 1), (306, 310, 2, 1), (313, 327, 2,
      1), (330, 374, 2, 1), (376, 376, 1, - 121), (377, 381, 2, 1), (385, 385, 1, 210), (386,
      388, 2, 1), (390, 390, 1, 206), (391, 391, 1, 1), (393, 394, 1, 205), (395, 395, 1, 1),
      (398, 398, 1, 79), (399, 399, 1, 202), (400, 400, 1, 203), (401, 401, 1, 1), (403, 403,
      1, 205), (404, 404, 1, 207), (406, 406, 1, 211), (407, 407, 1, 209), (408, 408, 1, 1),
      (412, 412, 1, 211), (413, 413, 1, 213), (415, 415, 1, 214), (416, 420, 2, 1), (422,
      422, 1, 218), (423, 423, 1, 1), (425, 425, 1, 218), (428, 428, 1, 1), (430, 430, 1,
      218), (431, 431, 1, 1), (433, 434, 1, 217), (435, 437, 2, 1), (439, 439, 1, 219), (440,
      440, 1, 1), (444, 444, 1, 1), (452, 452, 1, 2), (453, 453, 1, 1), (455, 455, 1, 2),
      (456, 456, 1, 1), (458, 458, 1, 2), (459, 475, 2, 1), (478, 494, 2, 1), (497, 497, 1,
      2), (498, 500, 2, 1), (502, 502, 1, - 97), (503, 503, 1, - 56), (504, 542, 2, 1), (544,
      544, 1, - 130), (546, 562, 2, 1), (570, 570, 1, 10795), (571, 571, 1, 1), (573, 573, 1,
      - 163), (574, 574, 1, 10792), (577, 577, 1, 1), (579, 579, 1, - 195), (580, 580, 1,
      69), (581, 581, 1, 71), (582, 590, 2, 1), (880, 882, 2, 1), (886, 886, 1, 1), (895,
      895, 1, 116), (902, 902, 1, 38), (904, 906, 1, 37), (908, 908, 1, 64), (910, 911, 1,
      63), (913, 929, 1, 32), (932, 939, 1, 32), (975, 975, 1, 8), (984, 1006, 2, 1), (1012,
      1012, 1, - 60), (1015, 1015, 1, 1), (1017, 1017, 1, - 7), (1018, 1018, 1, 1), (1021,
      1023, 1, - 130), (1024, 1039, 1, 80), (1040, 1071, 1, 32), (1120, 1152, 2, 1), (1162,
      1214, 2, 1), (1216, 1216, 1, 15), (1217, 1229, 2, 1), (1232, 1326, 2, 1), (1329, 1366,
      1, 48), (4256, 4293, 1, 7264), (4295, 4295, 1, 7264), (4301, 4301, 1, 7264), (5024,
      5103, 1, 38864), (5104, 5109, 1, 8), (7312, 7354, 1, - 3008), (7357, 7359, 1, - 3008),
      (7680, 7828, 2, 1), (7838, 7838, 1, - 7615), (7840, 7934, 2, 1), (7944, 7951, 1, - 8),
      (7960, 7965, 1, - 8), (7976, 7983, 1, - 8), (7992, 7999, 1, - 8), (8008, 8013, 1, - 8),
      (8025, 8031, 2, - 8), (8040, 8047, 1, - 8), (8072, 8079, 1, - 8), (8088, 8095, 1, - 8),
      (8104, 8111, 1, - 8), (8120, 8121, 1, - 8), (8122, 8123, 1, - 74), (8124, 8124, 1, -
      9), (8136, 8139, 1, - 86), (8140, 8140, 1, - 9), (8152, 8153, 1, - 8), (8154, 8155, 1,
      - 100), (8168, 8169, 1, - 8), (8170, 8171, 1, - 112), (8172, 8172, 1, - 7), (8184,
      8185, 1, - 128), (8186, 8187, 1, - 126), (8188, 8188, 1, - 9), (8486, 8486, 1, - 7517),
      (8490, 8490, 1, - 8383), (8491, 8491, 1, - 8262), (8498, 8498, 1, 28), (8544, 8559, 1,
      16), (8579, 8579, 1, 1), (9398, 9423, 1, 26), (11264, 11311, 1, 48), (11360, 11360, 1,
      1), (11362, 11362, 1, - 10743), (11363, 11363, 1, - 3814), (11364, 11364, 1, - 10727),
      (11367, 11371, 2, 1), (11373, 11373, 1, - 10780), (11374, 11374, 1, - 10749), (11375,
      11375, 1, - 10783), (11376, 11376, 1, - 10782), (11378, 11378, 1, 1), (11381, 11381, 1,
      1), (11390, 11391, 1, - 10815), (11392, 11490, 2, 1), (11499, 11501, 2, 1), (11506,
      11506, 1, 1), (42560, 42604, 2, 1), (42624, 42650, 2, 1), (42786, 42798, 2, 1), (42802,
      42862, 2, 1), (42873, 42875, 2, 1), (42877, 42877, 1, - 35332), (42878, 42886, 2, 1),
      (42891, 42891, 1, 1), (42893, 42893, 1, - 42280), (42896, 42898, 2, 1), (42902, 42920,
      2, 1), (42922, 42922, 1, - 42308), (42923, 42923, 1, - 42319), (42924, 42924, 1, -
      42315), (42925, 42925, 1, - 42305), (42926, 42926, 1, - 42308), (42928, 42928, 1, -
      42258), (42929, 42929, 1, - 42282), (42930, 42930, 1, - 42261), (42931, 42931, 1, 928),
      (42932, 42946, 2, 1), (42948, 42948, 1, - 48), (42949, 42949, 1, - 42307), (42950,
      42950, 1, - 35384), (42951, 42953, 2, 1), (42960, 42960, 1, 1), (42966, 42968, 2, 1),
      (42997, 42997, 1, 1), (65313, 65338, 1, 32), (66560, 66599, 1, 40), (66736, 66771, 1,
      40), (66928, 66938, 1, 39), (66940, 66954, 1, 39), (66956, 66962, 1, 39), (66964,
      66965, 1, 39), (68736, 68786, 1, 64), (71840, 71871, 1, 32), (93760, 93791, 1, 32),
      (125184, 125217, 1, 34)]"

definition case_ignorable_ranges :: "(nat \<times> nat) list" where
  "case_ignorable_ranges =
    [(39, 39), (46, 46), (58, 58), (94, 94), (96, 96), (168, 168), (173, 173), (175, 175),
      (180, 180), (183, 184), (688, 879), (884, 885), (890, 890), (900, 901), (903, 903),
      (1155, 1161), (1369, 1369), (1375, 1375), (1425, 1469), (1471, 1471), (1473, 1474),
      (1476, 1477), (1479, 1479), (1524, 1524), (1536, 1541), (1552, 1562), (1564, 1564),
      (1600, 1600), (1611, 1631), (1648, 1648), (1750, 1757), (1759, 1768), (1770, 1773),
      (1807, 1807), (1809, 1809), (1840, 1866), (1958, 1968), (2027, 2037), (2042, 2042),
      (2045, 2045), (2070, 2093), (2137, 2139), (2184, 2184), (2192, 2193), (2200, 2207),
      (2249, 2306), (2362, 2362), (2364, 2364), (2369, 2376), (2381, 2381), (2385, 2391),
      (2402, 2403), (2417, 2417), (2433, 2433), (2492, 2492), (2497, 2500), (2509, 2509),
      (2530, 2531), (2558, 2558), (2561, 2562), (2620, 2620), (2625, 2626), (2631, 2632),
      (2635, 2637), (2641, 2641), (2672, 2673), (2677, 2677), (2689, 2690), (2748, 2748),
      (2753, 2757), (2759, 2760), (2765, 2765), (2786, 2787), (2810, 2815), (2817, 2817),
      (2876, 2876), (2879, 2879), (2881, 2884), (2893, 2893), (2901, 2902), (2914, 2915),
      (2946, 2946), (3008, 3008), (3021, 3021), (3072, 3072), (3076, 3076), (3132, 3132),
      (3134, 3136), (3142, 3144), (3146, 3149), (3157, 3158), (3170, 3171), (3201, 3201),
      (3260, 3260), (3263, 3263), (3270, 3270), (3276, 3277), (3298, 3299), (3328, 3329),
      (3387, 3388), (3393, 3396), (3405, 3405), (3426, 3427), (3457, 3457), (3530, 3530),
      (3538, 3540), (3542, 3542), (3633, 3633), (3636, 3642), (3654, 3662), (3761, 3761),
      (3764, 3772), (3782, 3782), (3784, 3789), (3864, 3865), (3893, 3893), (3895, 3895),
      (3897, 3897), (3953, 3966), (3968, 3972), (3974, 3975), (3981, 3991), (3993, 4028),
      (4038, 4038), (4141, 4144), (4146, 4151), (4153, 4154), (4157, 4158), (4184, 4185),
      (4190, 4192), (4209, 4212), (4226, 4226), (4229, 4230), (4237, 4237), (4253, 4253),
      (4348, 4348), (4957, 4959), (5906, 5908), (5938, 5939), (5970, 5971), (6002, 6003),
      (6068, 6069), (6071, 6077), (6086, 6086), (6089, 6099), (6103, 6103), (6109, 6109),
      (6155, 6159), (6211, 6211), (6277, 6278), (6313, 6313), (6432, 6434), (6439, 6440),
      (6450, 6450), (6457, 6459), (6679, 6680), (6683, 6683), (6742, 6742), (6744, 6750),
      (6752, 6752), (6754, 6754), (6757, 6764), (6771, 6780), (6783, 6783), (6823, 6823),
      (6832, 6862), (6912, 6915), (6964, 6964), (6966, 6970), (6972, 6972), (6978, 6978),
      (7019, 7027), (7040, 7041), (7074, 7077), (7080, 7081), (7083, 7085), (7142, 7142),
      (7144, 7145), (7149, 7149), (7151, 7153), (7212, 7219), (7222, 7223), (7288, 7293),
      (7376, 7378), (7380, 7392), (7394, 7400), (7405, 7405), (7412, 7412), (7416, 7417),
      (7468, 7530), (7544, 7544), (7579, 7679), (8125, 8125), (8127, 8129), (8141, 8143),
      (8157, 8159), (8173, 8175), (8189, 8190), (8203, 8207), (8216, 8217), (8228, 8228),
      (8231, 8231), (8234, 8238), (8288, 8292), (8294, 8303), (8305, 8305), (8319, 8319),
      (8336, 8348), (8400, 8432), (11388, 11389), (11503, 11505), (11631, 11631), (11647,
      11647), (11744, 11775), (11823, 11823), (12293, 12293), (12330, 12333), (12337, 12341),
      (12347, 12347), (12441, 12446), (12540, 12542), (40981, 40981), (42232, 42237), (42508,
      42508), (42607, 42610), (42612, 42621), (42623, 42623), (42652, 42655), (42736, 42737),
      (42752, 42785), (42864, 42864), (42888, 42890), (42994, 42996), (43000, 43001), (43010,
      43010), (43014, 43014), (43019, 43019), (43045, 43046), (43052, 43052), (43204, 43205),
      (43232, 43249), (43263, 43263), (43302, 43309), (43335, 43345), (43392, 43394), (43443,
      43443), (43446, 43449), (43452, 43453), (43471, 43471), (43493, 43494), (43561, 43566),
      (43569, 43570), (43573, 43574), (43587, 43587), (43596, 43596), (43632, 43632), (43644,
      43644), (43696, 43696), (43698, 43700), (43703, 43704), (43710, 43711), (43713, 43713),
      (43741, 43741), (43756, 43757), (43763, 43764), (43766, 43766), (43867, 43871), (43881,
      43883), (44005, 44005), (44008, 44008), (44013, 44013), (64286, 64286), (64434, 64450),
      (65024, 65039), (65043, 65043), (65056, 65071), (65106, 65106), (65109, 65109), (65279,
      65279), (65287, 65287), (65294, 65294), (65306, 65306), (65342, 65342), (65344, 65344),
      (65392, 65392), (65438, 65439), (65507, 65507), (65529, 65531), (66045, 66045), (66272,
      66272), (66422, 66426), (67456, 67461), (67463, 67504), (67506, 67514), (68097, 68099),
      (68101, 68102), (68108, 68111), (68152, 68154), (68159, 68159), (68325, 68326), (68900,
      68903), (69291, 69292), (69446, 69456), (69506, 69509), (69633, 69633), (69688, 69702),
      (69744, 69744), (69747, 69748), (69759, 69761), (69811, 69814), (69817, 69818), (69821,
      69821), (69826, 69826), (69837, 69837), (69888, 69890), (69927, 69931), (69933, 69940),
      (70003, 70003), (70016, 70017), (70070, 70078), (70089, 70092), (70095, 70095), (70191,
      70193), (70196, 70196), (70198, 70199), (70206, 70206), (70367, 70367), (70371, 70378),
      (70400, 70401), (70459, 70460), (70464, 70464), (70502, 70508), (70512, 70516), (70712,
      70719), (70722, 70724), (70726, 70726), (70750, 70750), (70835, 70840), (70842, 70842),
      (70847, 70848), (70850, 70851), (71090, 71093), (71100, 71101), (71103, 71104), (71132,
      71133), (71219, 71226), (71229, 71229), (71231, 71232), (71339, 71339), (71341, 71341),
      (71344, 71349), (71351, 71351), (71453, 71455), (71458, 71461), (71463, 71467), (71727,
      71735), (71737, 71738), (71995, 71996), (71998, 71998), (72003, 72003), (72148, 72151),
      (72154, 72155), (72160, 72160), (72193, 72202), (72243, 72248), (72251, 72254), (72263,
      72263), (72273, 72278), (72281, 72283), (72330, 72342), (72344, 72345), (72752, 72758),
      (72760, 72765), (72767, 72767), (72850, 72871), (72874, 72880), (72882, 72883), (72885,
      72886), (73009, 73014), (73018, 73018), (73020, 73021), (73023, 73029), (73031, 73031),
      (73104, 73105), (73109, 73109), (73111, 73111), (73459, 73460), (78896, 78904), (92912,
      92916), (92976, 92982), (92992, 92995), (94031, 94031), (94095, 94111), (94176, 94177),
      (94179, 94180), (110576, 110579), (110581, 110587), (110589, 110590), (113821, 113822),
      (113824, 113827), (118528, 118573), (118576, 118598), (119143, 119145), (119155,
      119170), (119173, 119179), (119210, 119213), (119362, 119364), (121344, 121398),
      (121403, 121452), (121461, 121461), (121476, 121476), (121499, 121503), (121505,
      121519), (122880, 122886), (122888, 122904), (122907, 122913), (122915, 122916),
      (122918, 122922), (123184, 123197), (123566, 123566), (123628, 123631), (125136,
      125142), (125252, 125259), (127995, 127999), (917505, 917505), (917536, 917631),
      (917760, 917999)]"

definition cased_ranges :: "(nat \<times> nat) list" where
  "cased_ranges =
    [(65, 90), (97, 122), (170, 170), (181, 181), (186, 186), (192, 214), (216, 246), (248,
      442), (444, 447), (452, 659), (661, 687), (880, 883), (886, 887), (891, 893), (895,
      895), (902, 902), (904, 906), (908, 908), (910, 929), (931, 1013), (1015, 1153), (1162,
      1327), (1329, 1366), (1376, 1416), (4256, 4293), (4295, 4295), (4301, 4301), (4304,
      4346), (4349, 4351), (5024, 5109), (5112, 5117), (7296, 7304), (7312, 7354), (7357,
      7359), (7424, 7467), (7531, 7543), (7545, 7578), (7680, 7957), (7960, 7965), (7968,
      8005), (8008, 8013), (8016, 8023), (8025, 8025), (8027, 8027), (8029, 8029), (8031,
      8061), (8064, 8116), (8118, 8124), (8126, 8126), (8130, 8132), (8134, 8140), (8144,
      8147), (8150, 8155), (8160, 8172), (8178, 8180), (8182, 8188), (8450, 8450), (8455,
      8455), (8458, 8467), (8469, 8469), (8473, 8477), (8484, 8484), (8486, 8486), (8488,
      8488), (8490, 8493), (8495, 8500), (8505, 8505), (8508, 8511), (8517, 8521), (8526,
      8526), (8544, 8575), (8579, 8580), (9398, 9449), (11264, 11387), (11390, 11492),
      (11499, 11502), (11506, 11507), (11520, 11557), (11559, 11559), (11565, 11565), (42560,
      42605), (42624, 42651), (42786, 42863), (42865, 42887), (42891, 42894), (42896, 42954),
      (42960, 42961), (42963, 42963), (42965, 42969), (42997, 42998), (43002, 43002), (43824,
      43866), (43872, 43880), (43888, 43967), (64256, 64262), (64275, 64279), (65313, 65338),
      (65345, 65370), (66560, 66639), (66736, 66771), (66776, 66811), (66928, 66938), (66940,
      66954), (66956, 66962), (66964, 66965), (66967, 66977), (66979, 66993), (66995, 67001),
      (67003, 67004), (68736, 68786), (68800, 68850), (71840, 71903), (93760, 93823),
      (119808, 119892), (119894, 119964), (119966, 119967), (119970, 119970), (119973,
      119974), (119977, 119980), (119982, 119993), (119995, 119995), (119997, 120003),
      (120005, 120069), (120071, 120074), (120077, 120084), (120086, 120092), (120094,
      120121), (120123, 120126), (120128, 120132), (120134, 120134), (120138, 120144),
      (120146, 120485), (120488, 120512), (120514, 120538), (120540, 120570), (120572,
      120596), (120598, 120628), (120630, 120654), (120656, 120686), (120688, 120712),
      (120714, 120744), (120746, 120770), (120772, 120779), (122624, 122633), (122635,
      122654), (125184, 125251), (127280, 127305), (127312, 127337), (127344, 127369)]"

definition lower_cp :: "nat \<Rightarrow> nat" where
  "lower_cp c =
     (if c < 128 then (if 65 \<le> c \<and> c \<le> 90 then c + 32 else c)
      else
        (case find (\<lambda>(lo, hi, step, delta). lo \<le> c \<and> c \<le> hi \<and> (c - lo) mod step = 0)
                   lower_segments of
           Some (lo, hi, step, delta) \<Rightarrow> nat (int c + delta)
         | None \<Rightarrow> c))"

definition lower_full :: "nat \<Rightarrow> pystr" where
  "lower_full c = (if c = 304 then [105, 775] else [lower_cp c])"

definition final_sigma :: "pystr \<Rightarrow> pystr \<Rightarrow> nat" where
  "final_sigma before after =
     (let b = dropWhile (\<lambda>c. in_ranges c case_ignorable_ranges) before;
          a = dropWhile (\<lambda>c. in_ranges c case_ignorable_ranges) after
      in if b \<noteq> [] \<and> in_ranges (hd b) cased_ranges \<and>
            (a = [] \<or> \<not> in_ranges (hd a) cased_ranges)
         then 962 else 963)"

text \<open>\<open>before\<close> holds the characters already passed, the nearest first.\<close>

fun lower_from :: "pystr \<Rightarrow> pystr \<Rightarrow> pystr" where
  "lower_from before [] = []"
| "lower_from before (c # after) =
     (if c = 931 then [final_sigma before after] else lower_full c) @
     lower_from (c # before) after"

definition lower :: "pystr \<Rightarrow> pystr" where
  "lower s = lower_from [] s"

definition startswith :: "pystr \<Rightarrow> pystr \<Rightarrow> bool" where
  "startswith s p \<longleftrightarrow> take (length p) s = p"

definition endswith :: "pystr \<Rightarrow> pystr \<Rightarrow> bool" where
  "endswith s p \<longleftrightarrow> length p \<le> length s \<and> drop (length s - length p) s = p"

text \<open>\<open>sub in s\<close>: \<open>sub\<close> occurs in \<open>s\<close> as a contiguous substring.\<close>

fun contains :: "pystr \<Rightarrow> pystr \<Rightarrow> bool" where
  "contains [] sub = (sub = [])"
| "contains (c # cs) sub = (startswith (c # cs) sub \<or> contains cs sub)"

text \<open>
  \<open>s.replace(old, new)\<close>: the occurrences of \<open>old\<close> are found from left to right without
  overlap. With an empty \<open>old\<close> Python puts \<open>new\<close> before every character and at the end.
\<close>

function replace_from :: "pystr \<Rightarrow> pystr \<Rightarrow> pystr \<Rightarrow> pystr" where
  "replace_from old new [] = []"
| "replace_from old new (c # cs) =
     (if old \<noteq> [] \<and> startswith (c # cs) old
      then new @ replace_from old new (drop (length old) (c # cs))
      else c # replace_from old new cs)"
  by pat_completeness auto
termination
  by (relation "measure (\<lambda>(old, new, s). length s)") (auto simp: neq_Nil_conv)

definition replace :: "pystr \<Rightarrow> pystr \<Rightarrow> pystr \<Rightarrow> pystr" where
  "replace s old new =
     (if old = [] then new @ concat (map (\<lambda>c. c # new) s) else replace_from old new s)"

text \<open>
  \<open>s.split(sep)\<close> with an explicit separator: the pieces between the occurrences of
  \<open>sep\<close>, found from left to right without overlap, empty pieces included. Python raises
  ValueError for an empty separator; every call in the program passes a literal that is
  not empty, and \<open>split_from\<close> then returns the string unsplit.
\<close>

function split_from :: "pystr \<Rightarrow> pystr \<Rightarrow> pystr \<Rightarrow> pystr list" where
  "split_from sep cur [] = [cur]"
| "split_from sep cur (c # cs) =
     (if sep \<noteq> [] \<and> startswith (c # cs) sep
      then cur # split_from sep [] (drop (length sep) (c # cs))
      else split_from sep (cur @ [c]) cs)"
  by pat_completeness auto
termination
  by (relation "measure (\<lambda>(sep, cur, s). length s)") (auto simp: neq_Nil_conv)

definition split :: "pystr \<Rightarrow> pystr \<Rightarrow> pystr list" where
  "split s sep = split_from sep [] s"

section \<open>Exceptions\<close>

datatype error =
    IndexError
  | AttributeError
  | TypeError
  | ValueError
  | KeyError
  | ZeroDivisionError
  | RequestException

section \<open>Title accuracy\<close>

text \<open>
  \<open>Levenshtein.ratio(a, b)\<close> of the python-Levenshtein package is
  \<open>(lensum - ldist) / lensum\<close>, where \<open>lensum\<close> is the sum of the two lengths and \<open>ldist\<close>
  the edit distance in which an insertion and a deletion cost 1 and a substitution costs
  2; it is 1.0 when both strings are empty. The quotient is kept as an exact rational.
\<close>

fun lev_edit_distance :: "pystr \<Rightarrow> pystr \<Rightarrow> nat" where
  "lev_edit_distance [] ys = length ys"
| "lev_edit_distance (x # xs) [] = Suc (length xs)"
| "lev_edit_distance (x # xs) (y # ys) =
     min (min (lev_edit_distance xs (y # ys) + 1) (lev_edit_distance (x # xs) ys + 1))
         (lev_edit_distance xs ys + (if x = y then 0 else 2))"

definition Levenshtein_ratio :: "pystr \<Rightarrow> pystr \<Rightarrow> rat" where
  "Levenshtein_ratio a b =
     (let lensum = length a + length b in
      if lensum = 0 then 1
      else of_nat (lensum - lev_edit_distance a b) / of_nat lensum)"

text \<open>
  \<open>title_is_accurate\<close> of \<open>movies_advisor/movies_finder.py\<close>. The ratio of
  \<open>difflib.SequenceMatcher\<close>, used only when \<open>use_levenshtein\<close> is false, is the
  parameter \<open>sm\<close>.
\<close>

definition title_is_accurate ::
  "(pystr \<Rightarrow> pystr \<Rightarrow> rat) \<Rightarrow> pystr \<Rightarrow> pystr \<Rightarrow> bool \<Rightarrow> bool" where
  "title_is_accurate sm title original_title use_levenshtein =
     (let similarity =
        (if use_levenshtein then Levenshtein_ratio title original_title
         else sm title original_title)
      in if similarity \<ge> 9 / 10 then True else False)"

text \<open>
  \<open>title_is_accurate\<close> of the older \<open>movies_finder.py\<close>: the number of words of
  \<open>title\<close> that occur in \<open>original_title\<close>, divided by the number of words of
  \<open>original_title\<close>. The division raises ZeroDivisionError on a zero denominator.
\<close>

definition legacy_title_is_accurate :: "pystr \<Rightarrow> pystr \<Rightarrow> error + bool" where
  "legacy_title_is_accurate title original_title =
     (let words_in_original_title = map lower (split title (str '' ''));
          count = length (filter (\<lambda>word. contains (lower original_title) word)
                                 words_in_original_title);
          n = length (split original_title (str '' ''))
      in if n = 0 then Inl ZeroDivisionError
         else let accuracy = (of_nat count / of_nat n :: rat)
              in if accuracy \<ge> 9 / 10 then Inr True else Inr False)"

section \<open>Text cleaning\<close>

text \<open>
  \<open>clean_string\<close> of \<open>movies_advisor/movies_finder.py\<close>: ten replacements in the
  order of the source, then \<open>strip\<close>, then the two suffix trims. The code points written
  as numbers are 34 (double quote), 39 (apostrophe), 44 (comma), 8230 (horizontal
  ellipsis) and 8220 (left double quotation mark).
\<close>

definition clean_string :: "pystr \<Rightarrow> pystr" where
  "clean_string string0 =
     (let string1 = replace string0 [34] (str '' '');
          string2 = replace string1 [39] (str '' '');
          string3 = replace string2 [39, 44] (str '', '');
          string4 = replace string3 [39] [];
          string5 = replace string4 (str '' (...) '') (str ''. '');
          string6 = replace string5 (str '' ('' @ [8230] @ str '') '') (str ''. '');
          string7 = replace string6 [8220] [];
          string8 = replace string7 (str ''..'') (str ''. '');
          string9 = replace string8 (str '' ,'') (str '', '');
          string10 = replace string9 (str ''  '') (str '' '');
          string11 = strip string10;
          string12 = (if endswith string11 (str ''(FILMAFFINITY)'')
                      then strip (take (length string11 - 14) string11) else string11);
          string13 = (if endswith string12 (str ''aka'')
                      then strip (take (length string12 - 3) string12) else string12)
      in string13)"

text \<open>
  \<open>clean_string\<close> of the older \<open>movies_finder.py\<close>: the fourth replacement puts a
  space for the apostrophe instead of deleting it.
\<close>

definition legacy_clean_string :: "pystr \<Rightarrow> pystr" where
  "legacy_clean_string string0 =
     (let string1 = replace string0 [34] (str '' '');
          string2 = replace string1 [39] (str '' '');
          string3 = replace string2 [39, 44] (str '', '');
          string4 = replace string3 [39] (str '' '');
          string5 = replace string4 (str '' (...) '') (str ''. '');
          string6 = replace string5 (str '' ('' @ [8230] @ str '') '') (str ''. '');
          string7 = replace string6 [8220] [];
          string8 = replace string7 (str ''..'') (str ''. '');
          string9 = replace string8 (str '' ,'') (str '', '');
          string10 = replace string9 (str ''  '') (str '' '');
          string11 = strip string10;
          string12 = (if endswith string11 (str ''(FILMAFFINITY)'')
                      then strip (take (length string11 - 14) string11) else string11);
          string13 = (if endswith string12 (str ''aka'')
                      then strip (take (length string12 - 3) string12) else string12)
      in string13)"

section \<open>Finding a year in unformatted text\<close>

text \<open>
  \<open>int(s)\<close> on a string: surrounding whitespace is dropped, one sign is allowed, and the
  rest must be decimal digits, with single underscores allowed between digits; 43 is the
  plus sign, 45 the minus sign and 95 the underscore. A decimal digit is an ASCII digit
  or one of the ten code points that follow a zero of \<open>decimal_zeros\<close>. The whitespace
  \<open>int\<close> drops is that of \<open>strip\<close> without U+001C..U+001F. Anything else raises
  ValueError, and so does a text of more than 4300 digits (the default limit of CPython
  3.11 and of the security releases before it).
\<close>

definition ascii_digit :: "nat \<Rightarrow> bool" where
  "ascii_digit c \<longleftrightarrow> 48 \<le> c \<and> c \<le> 57"

definition decimal_zeros :: "nat list" where
  "decimal_zeros =
    [1632, 1776, 1984, 2406, 2534, 2662, 2790, 2918, 3046, 3174, 3302, 3430, 3558, 3664,
      3792, 3872, 4160, 4240, 6112, 6160, 6470, 6608, 6784, 6800, 6992, 7088, 7232, 7248,
      42528, 43216, 43264, 43472, 43504, 43600, 44016, 65296, 66720, 68912, 69734, 69872,
      69942, 70096, 70384, 70736, 70864, 71248, 71360, 71472, 71904, 72016, 72784, 73040,
      73120, 92768, 92864, 93008, 120782, 120792, 120802, 120812, 120822, 123200, 123632,
      125264, 130032]"

definition decimal_value :: "nat \<Rightarrow> nat option" where
  "decimal_value c =
     (if ascii_digit c then Some (c - 48)
      else if c < 128 then None
      else map_option (\<lambda>z. c - z) (find (\<lambda>z. z \<le> c \<and> c \<le> z + 9) decimal_zeros))"

fun parse_digits :: "int \<Rightarrow> pystr \<Rightarrow> int option" where
  "parse_digits acc [] = Some acc"
| "parse_digits acc (c # cs) =
     (case decimal_value c of
        Some d \<Rightarrow> parse_digits (10 * acc + int d) cs
      | None \<Rightarrow>
          if c = 95 \<and> cs \<noteq> [] \<and> decimal_value (hd cs) \<noteq> None then parse_digits acc cs
          else None)"

definition parse_unsigned :: "pystr \<Rightarrow> int option" where
  "parse_unsigned s =
     (case s of [] \<Rightarrow> None
      | c # cs \<Rightarrow>
          if decimal_value c \<noteq> None \<and>
             length (filter (\<lambda>c. decimal_value c \<noteq> None) s) \<le> 4300
          then parse_digits 0 s
          else None)"

definition int_space :: "nat \<Rightarrow> bool" where
  "int_space c \<longleftrightarrow> isspace c \<and> \<not> (28 \<le> c \<and> c \<le> 31)"

definition int_strip :: "pystr \<Rightarrow> pystr" where
  "int_strip s = rev (dropWhile int_space (rev (dropWhile int_space s)))"

definition int_of_str :: "pystr \<Rightarrow> error + int" where
  "int_of_str s =
     (let t = int_strip s;
          r = (case t of [] \<Rightarrow> None
               | c # cs \<Rightarrow>
                   if c = 43 then parse_unsigned cs
                   else if c = 45 then map_option uminus (parse_unsigned cs)
                   else parse_unsigned t)
      in case r of None \<Rightarrow> Inl ValueError | Some i \<Rightarrow> Inr i)"

text \<open>
  \<open>str.isdigit()\<close>: the string is not empty and every character is a digit, that is,
  an ASCII digit or a code point of \<open>isdigit_ranges\<close> (the decimal digits of the other
  scripts and characters such as the superscript digits).
\<close>

definition isdigit_ranges :: "(nat \<times> nat) list" where
  "isdigit_ranges =
    [(178, 179), (185, 185), (1632, 1641), (1776, 1785), (1984, 1993), (2406, 2415), (2534,
      2543), (2662, 2671), (2790, 2799), (2918, 2927), (3046, 3055), (3174, 3183), (3302,
      3311), (3430, 3439), (3558, 3567), (3664, 3673), (3792, 3801), (3872, 3881), (4160,
      4169), (4240, 4249), (4969, 4977), (6112, 6121), (6160, 6169), (6470, 6479), (6608,
      6618), (6784, 6793), (6800, 6809), (6992, 7001), (7088, 7097), (7232, 7241), (7248,
      7257), (8304, 8304), (8308, 8313), (8320, 8329), (9312, 9320), (9332, 9340), (9352,
      9360), (9450, 9450), (9461, 9469), (9471, 9471), (10102, 10110), (10112, 10120),
      (10122, 10130), (42528, 42537), (43216, 43225), (43264, 43273), (43472, 43481), (43504,
      43513), (43600, 43609), (44016, 44025), (65296, 65305), (66720, 66729), (68160, 68163),
      (68912, 68921), (69216, 69224), (69714, 69722), (69734, 69743), (69872, 69881), (69942,
      69951), (70096, 70105), (70384, 70393), (70736, 70745), (70864, 70873), (71248, 71257),
      (71360, 71369), (71472, 71481), (71904, 71913), (72016, 72025), (72784, 72793), (73040,
      73049), (73120, 73129), (92768, 92777), (92864, 92873), (93008, 93017), (120782,
      120831), (123200, 123209), (123632, 123641), (125264, 125273), (127232, 127242),
      (130032, 130041)]"

definition isdigit_cp :: "nat \<Rightarrow> bool" where
  "isdigit_cp c \<longleftrightarrow> ascii_digit c \<or> (128 \<le> c \<and> in_ranges c isdigit_ranges)"

definition isdigit :: "pystr \<Rightarrow> bool" where
  "isdigit s \<longleftrightarrow> s \<noteq> [] \<and> list_all isdigit_cp s"

text \<open>
  \<open>find_year_in_unformatted_text\<close> of the older \<open>movies_finder.py\<close>. \<open>inner_loop\<close> is
  the loop over \<open>string[cont + 1:]\<close>, \<open>outer_loop\<close> the loop over \<open>string\<close>; 40 and 41
  are the two parentheses. \<open>cont\<close> only grows on a character other than an opening
  parenthesis, and \<open>possible_year\<close> is emptied only when \<open>int\<close> fails.
\<close>

fun inner_loop :: "pystr \<Rightarrow> bool \<Rightarrow> pystr \<Rightarrow> pystr \<times> bool" where
  "inner_loop possible_year found_year [] = (possible_year, found_year)"
| "inner_loop possible_year found_year (char_1 # rest) =
     (if char_1 = 41 then
        (case int_of_str possible_year of
           Inr _ \<Rightarrow> (possible_year, True)
         | Inl _ \<Rightarrow> ([], found_year))
      else inner_loop (possible_year @ [char_1]) found_year rest)"

fun outer_loop :: "pystr \<Rightarrow> nat \<Rightarrow> bool \<Rightarrow> pystr \<Rightarrow> pystr \<Rightarrow> pystr" where
  "outer_loop string cont found_year possible_year [] = possible_year"
| "outer_loop string cont found_year possible_year (char # rest) =
     (if found_year then possible_year
      else if char = 40 then
        (case inner_loop possible_year found_year (drop (cont + 1) string) of
           (possible_year', found_year') \<Rightarrow>
             outer_loop string cont found_year' possible_year' rest)
      else outer_loop string (cont + 1) found_year possible_year rest)"

definition legacy_find_year_in_unformatted_text :: "pystr \<Rightarrow> pystr" where
  "legacy_find_year_in_unformatted_text string = outer_loop string 0 False [] string"

text \<open>
  \<open>re.findall('\(.*?\)', string)\<close>: the matches, from left to right without overlap, of
  an opening parenthesis, the shortest run of characters other than a newline (10), and a
  closing parenthesis. \<open>match_group\<close> tries to match at a position just after an opening
  parenthesis and returns the characters up to the closing one and the text after it.
\<close>

fun match_group :: "pystr \<Rightarrow> pystr \<Rightarrow> (pystr \<times> pystr) option" where
  "match_group body [] = None"
| "match_group body (c # cs) =
     (if c = 41 then Some (body, cs)
      else if c = 10 then None
      else match_group (body @ [c]) cs)"

lemma match_group_length: "match_group body s = Some (b, r) \<Longrightarrow> length r < length s"
  by (induction body s rule: match_group.induct) (auto split: if_splits)

function findall_parens :: "pystr \<Rightarrow> pystr list" where
  "findall_parens [] = []"
| "findall_parens (c # cs) =
     (if c = 40 then
        (case match_group [] cs of
           Some (body, rest) \<Rightarrow> ([40] @ body @ [41]) # findall_parens rest
         | None \<Rightarrow> findall_parens cs)
      else findall_parens cs)"
  by pat_completeness auto
termination
  by (relation "measure length") (auto dest: match_group_length)

text \<open>
  \<open>find_year_in_unformatted_text\<close> of \<open>movies_advisor/movies_finder.py\<close>;
  \<open>first_digit_group\<close> is its loop over the matches, \<open>stuff[1:-1]\<close> is the match without
  its first and last character.
\<close>

fun first_digit_group :: "pystr \<Rightarrow> pystr list \<Rightarrow> pystr" where
  "first_digit_group possible_year [] = possible_year"
| "first_digit_group possible_year (stuff # rest) =
     (if isdigit (butlast (tl stuff)) then butlast (tl stuff)
      else first_digit_group possible_year rest)"

definition find_year_in_unformatted_text :: "pystr \<Rightarrow> pystr" where
  "find_year_in_unformatted_text string =
     (let inside_parentheses = findall_parens string
      in first_digit_group [] inside_parentheses)"

section \<open>Values, documents and the outside world\<close>

text \<open>
  The Python values the program stores in its dictionaries: \<open>None\<close>, an integer, a
  string or a list. \<open>==\<close> between two such values is equality of the terms: a string
  never equals an integer.
\<close>

datatype pyval = PNone | PInt int | PStr pystr | PList "pyval list"

type_synonym dict = "pystr \<rightharpoonup> pyval"

text \<open>\<open>int(v)\<close>: an integer is returned as it is, a string is parsed, anything else is a TypeError.\<close>

fun py_int :: "pyval \<Rightarrow> error + int" where
  "py_int (PInt i) = Inr i"
| "py_int (PStr s) = int_of_str s"
| "py_int PNone = Inl TypeError"
| "py_int (PList vs) = Inl TypeError"

text \<open>\<open>xs[0]\<close> raises IndexError on an empty list.\<close>

fun first :: "'a list \<Rightarrow> error + 'a" where
  "first [] = Inl IndexError"
| "first (x # xs) = Inr x"

text \<open>A list comprehension whose element expression may raise: the first exception ends it.\<close>

fun map_result :: "('a \<Rightarrow> error + 'b) \<Rightarrow> 'a list \<Rightarrow> error + 'b list" where
  "map_result f [] = Inr []"
| "map_result f (x # xs) =
     (case f x of Inl e \<Rightarrow> Inl e
      | Inr y \<Rightarrow> (case map_result f xs of Inl e \<Rightarrow> Inl e | Inr ys \<Rightarrow> Inr (y # ys)))"

text \<open>
  A parsed page (the BeautifulSoup object) is represented by the answers to the queries
  the program makes on it; texts are the \<open>.text\<close> of the selected elements, and an
  absent element (\<open>find\<close> returning \<open>None\<close>) is \<open>None\<close>.
\<close>

record anchor =
  a_title :: "pystr option"  \<comment> \<open>\<open>get("title")\<close>\<close>
  a_href :: pystr  \<comment> \<open>\<open>get("href")\<close> of an element selected by \<open>a[href]\<close>\<close>

record se_it =
  ye_w :: "pystr list"  \<comment> \<open>\<open>select('div[class="ye-w"]')\<close>\<close>
  a_hrefs :: "anchor list"  \<comment> \<open>\<open>select("a[href]")\<close>\<close>

record soup =
  movie_info_dd :: "pystr list"  \<comment> \<open>\<open>select('dl[class="movie-info"] > dd')\<close>\<close>
  se_it_mt :: "se_it list"  \<comment> \<open>\<open>find_all("div", attrs={"class": "se-it mt"})\<close>\<close>
  description :: "pystr option"  \<comment> \<open>\<open>find("dd", attrs={"itemprop": "description"})\<close>\<close>
  reviewBody :: "pystr list"  \<comment> \<open>\<open>select('div[itemprop="reviewBody"]')\<close>\<close>
  result_text :: "anchor list list"
    \<comment> \<open>\<open>find_all("td", attrs={"class": "result_text"})\<close>, each with its \<open>select("a[href]")\<close>\<close>
  originalTitle :: "pystr option"  \<comment> \<open>\<open>find("div", attrs={"class": "originalTitle"})\<close>\<close>
  title_wrapper :: bool  \<comment> \<open>whether \<open>find("div", attrs={"class": "title_wrapper"})\<close> finds one\<close>
  titleYear :: "pystr list option"
    \<comment> \<open>\<open>find("span", attrs={"id": "titleYear"})\<close> and the texts of its \<open>select("a[href]")\<close>\<close>
  ratingValue :: "pystr option"  \<comment> \<open>\<open>find("span", attrs={"itemprop": "ratingValue"})\<close>\<close>
  list_group_item :: "pystr option option"
    \<comment> \<open>\<open>find('a', attrs={'class': 'list-group-item'})\<close> and its \<open>get('href')\<close>\<close>

record response =
  ok :: bool  \<comment> \<open>\<open>raise_for_status()\<close> raises HTTPError exactly when this is false\<close>
  http_error :: pystr  \<comment> \<open>the text of that HTTPError\<close>
  parsed :: soup  \<comment> \<open>\<open>BeautifulSoup(res.text, features="html.parser")\<close>\<close>

text \<open>
  What the program reads from outside: the answers of the web to \<open>get(url, headers)\<close>,
  \<open>s.get(url)\<close> and \<open>s.post(url, data)\<close> (\<open>Inl\<close> when the call raises), the ratio of
  \<open>difflib.SequenceMatcher\<close>, and the two formatted dates the logger writes.
\<close>

record world =
  requests_get :: "pystr \<Rightarrow> error + response"
  session_get :: "pystr \<Rightarrow> error + response"
  session_post :: "pystr option \<Rightarrow> pystr \<Rightarrow> pystr \<Rightarrow> error + unit"
  SequenceMatcher_ratio :: "pystr \<Rightarrow> pystr \<Rightarrow> rat"
  day :: pystr
  gmt5_date :: pystr

datatype session = Session

section \<open>The logger\<close>

text \<open>
  \<open>Logger.__init__\<close> sets no attribute, so a \<open>Logger\<close> has a \<open>message\<close> only if something
  else assigns one.
\<close>

record Logger =
  message :: "pystr option"

definition Logger_init :: Logger where
  "Logger_init = \<lparr>message = None\<rparr>"

text \<open>
  The state the program changes: the attributes of the \<open>MoviesFinder\<close> object and the
  content of the file \<open>log.txt\<close> (\<open>None\<close> while the file does not exist). \<open>movies\<close> lists
  the items of the input dictionary in their order.
\<close>

record state =
  movies :: "(pystr \<times> pyval) list"
  number_critics :: int
  imdb_credentials :: "pystr \<rightharpoonup> pystr"
  info :: "pystr \<rightharpoonup> dict"
  logger :: Logger
  log_txt :: "pystr option"

text \<open>
  \<open>Logger.log\<close> is declared \<open>def log(self)\<close>: \<open>args\<close> are the positional arguments of a
  call after \<open>self\<close>, and a call that passes any raises TypeError before the body runs.
  The body opens \<open>log.txt\<close> for appending, which creates the file, and then reads
  \<open>self.message\<close>, which raises AttributeError when the attribute was never set.
\<close>

definition Logger_log :: "world \<Rightarrow> pyval list \<Rightarrow> state \<Rightarrow> (error + unit) \<times> state" where
  "Logger_log W args st =
     (if args \<noteq> [] then (Inl TypeError, st)
      else
        let content = (case log_txt st of None \<Rightarrow> [] | Some c \<Rightarrow> c);
            st1 = st\<lparr>log_txt := Some content\<rparr>
        in case message (logger st) of
             None \<Rightarrow> (Inl AttributeError, st1)
           | Some m \<Rightarrow>
               (Inr (),
                st1\<lparr>log_txt := Some (content @ day W @ str '', '' @ gmt5_date W @
                                       str '' GMT+5: '' @ m @ [10])\<rparr>))"

text \<open>\<open>str(e)\<close> of a caught exception; only the logger receives it.\<close>

fun exception_text :: "error \<Rightarrow> pystr" where
  "exception_text IndexError = str ''list index out of range''"
| "exception_text AttributeError = str ''object has no attribute''"
| "exception_text TypeError = str ''unsupported argument''"
| "exception_text ValueError = str ''invalid literal for int() with base 10''"
| "exception_text KeyError = str ''key''"
| "exception_text ZeroDivisionError = str ''division by zero''"
| "exception_text RequestException = str ''request failed''"

section \<open>Fetching pages\<close>

definition FILMAFFINITY_URL_ROOT :: pystr where
  "FILMAFFINITY_URL_ROOT = str ''https://www.filmaffinity.com/en/search.php?stext=''"

definition IMDB_SIGNIN_URL :: pystr where
  "IMDB_SIGNIN_URL = str ''https://www.imdb.com/registration/signin?u=/''"

text \<open>
  \<open>soup_from_url\<close>: the request itself is outside any \<open>try\<close>; an HTTPError of
  \<open>raise_for_status\<close> is caught and handed to the logger, after which the page is parsed
  all the same.
\<close>

definition soup_from_url ::
  "world \<Rightarrow> pystr \<Rightarrow> session option \<Rightarrow> state \<Rightarrow> (error + soup) \<times> state" where
  "soup_from_url W url s st =
     (case (if s = None then requests_get W url else session_get W url) of
        Inl e \<Rightarrow> (Inl e, st)
      | Inr res \<Rightarrow>
          if ok res then (Inr (parsed res), st)
          else
            (case Logger_log W
                    [PStr (str ''An error ocurred while requesting to the website. '' @
                           str ''Original exception: '' @ http_error res)] st of
               (Inl e, st') \<Rightarrow> (Inl e, st')
             | (Inr _, st') \<Rightarrow> (Inr (parsed res), st')))"

text \<open>
  \<open>reduce(lambda a, b: a + sep + b, words) if len(words) > 1 else words[0]\<close>, the
  expression both URL constructions use.
\<close>

definition join_words :: "pystr \<Rightarrow> pystr list \<Rightarrow> error + pystr" where
  "join_words sep movie_name_words =
     (case movie_name_words of
        [] \<Rightarrow> Inl IndexError
      | w # ws \<Rightarrow> if length movie_name_words > 1 then Inr (foldl (\<lambda>a b. a @ sep @ b) w ws)
                  else Inr w)"

definition sign_in_to_imdb :: "world \<Rightarrow> state \<Rightarrow> (error + session) \<times> state" where
  "sign_in_to_imdb W st =
     (case soup_from_url W IMDB_SIGNIN_URL None st of
        (Inl e, st') \<Rightarrow> (Inl e, st')
      | (Inr soup, st') \<Rightarrow>
          (case list_group_item soup of
             None \<Rightarrow> (Inl AttributeError, st')
           | Some signin_IMDB_url \<Rightarrow>
               (case imdb_credentials st' (str ''email'') of
                  None \<Rightarrow> (Inl KeyError, st')
                | Some email \<Rightarrow>
                    (case imdb_credentials st' (str ''password'') of
                       None \<Rightarrow> (Inl KeyError, st')
                     | Some password \<Rightarrow>
                         (case session_post W signin_IMDB_url email password of
                            Inl e \<Rightarrow> (Inl e, st')
                          | Inr _ \<Rightarrow> (Inr Session, st'))))))"

section \<open>The candidate resolver\<close>

text \<open>
  The year test of the fallback (the inner \<open>if\<close>): the listed year is the text of the
  first \<open>ye-w\<close> element; it is accepted when it equals \<open>year\<close> as a string, or when
  both convert with \<open>int\<close> and the listed year is within one of the query's.
\<close>

definition year_in_tolerance :: "pystr list \<Rightarrow> pyval \<Rightarrow> error + bool" where
  "year_in_tolerance year_tag year =
     (case first year_tag of
        Inl e \<Rightarrow> Inl e
      | Inr y \<Rightarrow>
          if PStr (strip y) = year then Inr True
          else
            (case py_int year of
               Inl e \<Rightarrow> Inl e
             | Inr yi \<Rightarrow>
                 (case int_of_str (strip y) of
                    Inl e \<Rightarrow> Inl e
                  | Inr ti \<Rightarrow> Inr (yi - 1 \<le> ti \<and> ti \<le> yi + 1))))"

text \<open>
  The two nested tests on one candidate of the result list: the title attribute of its
  first link against the display title, both lowercased, and then the year test.
\<close>

definition possible_movie_matches :: "pystr \<Rightarrow> pyval \<Rightarrow> se_it \<Rightarrow> error + bool" where
  "possible_movie_matches movie_name year possible_movie_tag =
     (case first (a_hrefs possible_movie_tag) of
        Inl e \<Rightarrow> Inl e
      | Inr title_tag0 \<Rightarrow>
          (case a_title title_tag0 of
             None \<Rightarrow> Inl AttributeError
           | Some title \<Rightarrow>
               if lower (strip title) = lower movie_name
               then year_in_tolerance (ye_w possible_movie_tag) year
               else Inr False))"

text \<open>
  The loop over \<open>possible_movies_tags\<close>. \<open>cur\<close> holds the current \<open>soup\<close> and
  \<open>original_name\<close>; the first accepted candidate has its page fetched and its first
  \<open>movie-info\<close> entry read, and the loop ends there.
\<close>

fun scan_possible_movies ::
  "world \<Rightarrow> pystr \<Rightarrow> pyval \<Rightarrow> se_it list \<Rightarrow> soup \<times> pystr \<Rightarrow> state \<Rightarrow>
   (error + soup \<times> pystr) \<times> state" where
  "scan_possible_movies W movie_name year [] cur st = (Inr cur, st)"
| "scan_possible_movies W movie_name year (possible_movie_tag # rest) cur st =
     (case possible_movie_matches movie_name year possible_movie_tag of
        Inl e \<Rightarrow> (Inl e, st)
      | Inr False \<Rightarrow> scan_possible_movies W movie_name year rest cur st
      | Inr True \<Rightarrow>
          (case first (a_hrefs possible_movie_tag) of
             Inl e \<Rightarrow> (Inl e, st)
           | Inr title_tag0 \<Rightarrow>
               (case soup_from_url W (a_href title_tag0) None st of
                  (Inl e, st') \<Rightarrow> (Inl e, st')
                | (Inr soup', st') \<Rightarrow>
                    (case first (movie_info_dd soup') of
                       Inl e \<Rightarrow> (Inl e, st')
                     | Inr dd \<Rightarrow> (Inr (soup', strip dd), st')))))"

text \<open>
  The first half of \<open>get_useful_information_from_filmaffinity\<close>: build the search URL,
  fetch it, and read the original name; an IndexError on \<open>information_tag[0]\<close> is
  caught, logged, and answered by the loop over the candidates. The result is the
  \<open>soup\<close> and the \<open>original_name\<close> the second half works on.
\<close>

definition find_original_name ::
  "world \<Rightarrow> pystr \<Rightarrow> pyval \<Rightarrow> state \<Rightarrow> (error + soup \<times> pystr) \<times> state" where
  "find_original_name W movie_name movie_year st =
     (let movie_name_words = map (\<lambda>word. lower (strip word)) (split movie_name (str '' ''))
      in case join_words (str ''-'') movie_name_words of
           Inl e \<Rightarrow> (Inl e, st)
         | Inr parsed_movie_name \<Rightarrow>
             (let url = FILMAFFINITY_URL_ROOT @ parsed_movie_name @ str ''&stype=all''
              in case soup_from_url W url None st of
                   (Inl e, st') \<Rightarrow> (Inl e, st')
                 | (Inr soup, st') \<Rightarrow>
                     (case first (movie_info_dd soup) of
                        Inr dd \<Rightarrow> (Inr (soup, strip dd), st')
                      | Inl e \<Rightarrow>
                          (case Logger_log W
                                  [PStr (str ''Found more than 1 movie for '' @ movie_name @
                                         str ''. Original exception: '' @ exception_text e)]
                                  st' of
                             (Inl e', st'') \<Rightarrow> (Inl e', st'')
                           | (Inr _, st'') \<Rightarrow>
                               scan_possible_movies W movie_name movie_year (se_it_mt soup)
                                 (soup, []) st''))))"

text \<open>
  The three list comprehensions over the critic blocks, element by element; \<open>cap\<close> is
  \<open>self.number_critics\<close>.
\<close>

definition add_period :: "pystr \<Rightarrow> pystr" where
  "add_period critic = (if \<not> endswith critic (str ''.'') then critic @ str ''.'' else critic)"

definition cut_rating :: "pystr \<Rightarrow> error + pystr" where
  "cut_rating critic =
     (if contains critic (str ''Rating'')
      then (case first (split critic (str ''Rating'')) of
              Inl e \<Rightarrow> Inl e
            | Inr piece \<Rightarrow> Inr (strip piece))
      else Inr critic)"

definition extract_critics :: "int \<Rightarrow> pystr list \<Rightarrow> error + pyval" where
  "extract_critics cap critics_tags =
     (if critics_tags \<noteq> [] then
        (let critics1 = map (\<lambda>(index, critics_tag). clean_string (strip critics_tag))
                            (filter (\<lambda>(index, critics_tag). int index < cap)
                                    (enumerate 0 critics_tags));
             critics2 = map add_period critics1
         in case map_result cut_rating critics2 of
              Inl e \<Rightarrow> Inl e
            | Inr critics3 \<Rightarrow> Inr (PList (map PStr critics3)))
      else Inr PNone)"

text \<open>
  The second half of \<open>get_useful_information_from_filmaffinity\<close>: clean the original
  name, read and clean the synopsis (an AttributeError when the page has no description
  element), extract the critics and build the dictionary.
\<close>

definition useful_information :: "int \<Rightarrow> soup \<Rightarrow> pystr \<Rightarrow> pyval \<Rightarrow> error + dict" where
  "useful_information cap soup original_name0 year =
     (let original_name = clean_string original_name0
      in case description soup of
           None \<Rightarrow> Inl AttributeError
         | Some description_text \<Rightarrow>
             (let synopsis0 = clean_string (strip description_text);
                  synopsis = synopsis0 @ (if \<not> endswith synopsis0 (str ''.'') then str ''.'' else [])
              in case extract_critics cap (reviewBody soup) of
                   Inl e \<Rightarrow> Inl e
                 | Inr critics \<Rightarrow>
                     Inr [str ''original name'' \<mapsto> PStr original_name,
                          str ''year'' \<mapsto> year,
                          str ''synopsis'' \<mapsto> PStr synopsis,
                          str ''critics'' \<mapsto> critics,
                          str ''imdb_rating'' \<mapsto> PNone]))"

definition get_useful_information_from_filmaffinity ::
  "world \<Rightarrow> pystr \<Rightarrow> pyval \<Rightarrow> state \<Rightarrow> (error + unit) \<times> state" where
  "get_useful_information_from_filmaffinity W movie_name movie_year st =
     (case find_original_name W movie_name movie_year st of
        (Inl e, st') \<Rightarrow> (Inl e, st')
      | (Inr (soup, original_name), st') \<Rightarrow>
          (case useful_information (number_critics st') soup original_name movie_year of
             Inl e \<Rightarrow> (Inl e, st')
           | Inr d \<Rightarrow> (Inr (), st'\<lparr>info := (info st')(movie_name \<mapsto> d)\<rparr>)))"

section \<open>The cross-source matcher\<close>

text \<open>
  The title of a detail page: the text of the \<open>originalTitle\<close> element up to
  \<open>(original title)\<close>; when that raises, the fallback reads \<open>.text\<close> of the list
  \<open>select("h1")\<close> returns, which is an AttributeError whether or not the
  \<open>title_wrapper\<close> element exists.
\<close>

definition current_movie_name_of :: "soup \<Rightarrow> error + pystr" where
  "current_movie_name_of soup =
     (case (case originalTitle soup of
              None \<Rightarrow> Inl AttributeError
            | Some t \<Rightarrow>
                (case first (split (lower (strip t)) (str ''(original title)'')) of
                   Inl e \<Rightarrow> Inl e
                 | Inr piece \<Rightarrow> Inr (strip piece))) of
        Inr current_movie_name \<Rightarrow> Inr current_movie_name
      | Inl _ \<Rightarrow> (if title_wrapper soup then Inl AttributeError else Inl AttributeError))"

definition current_movie_year_of :: "soup \<Rightarrow> error + pystr" where
  "current_movie_year_of soup =
     (case titleYear soup of
        None \<Rightarrow> Inl AttributeError
      | Some links \<Rightarrow>
          (case first links of Inl e \<Rightarrow> Inl e | Inr y \<Rightarrow> Inr (strip y)))"

text \<open>
  The body of the \<open>try\<close> for one search-result entry. \<open>Inr True\<close> is the \<open>return\<close> after
  the rating was stored, \<open>Inr False\<close> the end of the body without a match.
\<close>

definition examine_entry ::
  "world \<Rightarrow> pystr \<Rightarrow> pystr \<Rightarrow> pyval \<Rightarrow> pystr \<Rightarrow> session \<Rightarrow> state \<Rightarrow>
   (error + bool) \<times> state" where
  "examine_entry W movie_name original_movie_name movie_year new_url s st =
     (case soup_from_url W new_url (Some s) st of
        (Inl e, st') \<Rightarrow> (Inl e, st')
      | (Inr soup, st') \<Rightarrow>
          (case current_movie_name_of soup of
             Inl e \<Rightarrow> (Inl e, st')
           | Inr current_movie_name \<Rightarrow>
               (case current_movie_year_of soup of
                  Inl e \<Rightarrow> (Inl e, st')
                | Inr current_movie_year \<Rightarrow>
                    if title_is_accurate (SequenceMatcher_ratio W) current_movie_name
                         original_movie_name True \<and>
                       PStr current_movie_year = movie_year
                    then
                      (case ratingValue soup of
                         None \<Rightarrow> (Inl AttributeError, st')
                       | Some r \<Rightarrow>
                           (case info st' movie_name of
                              None \<Rightarrow> (Inl KeyError, st')
                            | Some d \<Rightarrow>
                                (Inr True,
                                 st'\<lparr>info := (info st')(movie_name \<mapsto>
                                         d(str ''imdb_rating'' \<mapsto> PStr (strip r)))\<rparr>)))
                    else (Inr False, st'))))"

text \<open>
  The loop over \<open>search_item_tags\<close>. The URL of an entry is built outside the \<open>try\<close>;
  any exception of the body is caught and handed to the logger, and the loop goes on
  with the next entry if the logger returns.
\<close>

fun scan_search_items ::
  "world \<Rightarrow> pystr \<Rightarrow> pystr \<Rightarrow> pyval \<Rightarrow> session \<Rightarrow> anchor list list \<Rightarrow> state \<Rightarrow>
   (error + unit) \<times> state" where
  "scan_search_items W movie_name original_movie_name movie_year s [] st = (Inr (), st)"
| "scan_search_items W movie_name original_movie_name movie_year s (item # rest) st =
     (case first item of
        Inl e \<Rightarrow> (Inl e, st)
      | Inr link \<Rightarrow>
          (let new_url = str ''https://www.imdb.com'' @ a_href link
           in case examine_entry W movie_name original_movie_name movie_year new_url s st of
                (Inr True, st') \<Rightarrow> (Inr (), st')
              | (Inr False, st') \<Rightarrow>
                  scan_search_items W movie_name original_movie_name movie_year s rest st'
              | (Inl e, st') \<Rightarrow>
                  (case Logger_log W [PStr (exception_text e)] st' of
                     (Inl e', st'') \<Rightarrow> (Inl e', st'')
                   | (Inr _, st'') \<Rightarrow>
                       scan_search_items W movie_name original_movie_name movie_year s rest
                         st'')))"

definition get_useful_information_from_imdb ::
  "world \<Rightarrow> pystr \<Rightarrow> pystr \<Rightarrow> pyval \<Rightarrow> state \<Rightarrow> (error + unit) \<times> state" where
  "get_useful_information_from_imdb W movie_name original_movie_name movie_year st =
     (case sign_in_to_imdb W st of
        (Inl e, st') \<Rightarrow> (Inl e, st')
      | (Inr s, st') \<Rightarrow>
          (let movie_name_words = split original_movie_name (str '' '')
           in case join_words (str ''+'') movie_name_words of
                Inl e \<Rightarrow> (Inl e, st')
              | Inr parsed_movie_name \<Rightarrow>
                  (let url = str ''https://www.imdb.com/find?q='' @ parsed_movie_name @
                             str ''&ref_=nv_sr_sm''
                   in case soup_from_url W url (Some s) st' of
                        (Inl e, st'') \<Rightarrow> (Inl e, st'')
                      | (Inr soup, st'') \<Rightarrow>
                          scan_search_items W movie_name original_movie_name movie_year s
                            (result_text soup) st'')))"

section \<open>The enrichment pipeline\<close>

text \<open>
  \<open>self._info[movie]["original name"].lower()\<close>: KeyError when a key is missing,
  AttributeError when the value is no string.
\<close>

definition original_name_lower :: "state \<Rightarrow> pystr \<Rightarrow> error + pystr" where
  "original_name_lower st movie =
     (case info st movie of
        None \<Rightarrow> Inl KeyError
      | Some d \<Rightarrow>
          (case d (str ''original name'') of
             None \<Rightarrow> Inl KeyError
           | Some (PStr original_name) \<Rightarrow> Inr (lower original_name)
           | Some _ \<Rightarrow> Inl AttributeError))"

text \<open>The loop of \<open>complete_information\<close> over the items of \<open>self.movies\<close>; printing is left out.\<close>

fun complete_each :: "world \<Rightarrow> bool \<Rightarrow> (pystr \<times> pyval) list \<Rightarrow> state \<Rightarrow> (error + unit) \<times> state" where
  "complete_each W verbose [] st = (Inr (), st)"
| "complete_each W verbose ((movie, year) # rest) st =
     (case get_useful_information_from_filmaffinity W movie year st of
        (Inl e, st1) \<Rightarrow> (Inl e, st1)
      | (Inr _, st1) \<Rightarrow>
          (case original_name_lower st1 movie of
             Inl e \<Rightarrow> (Inl e, st1)
           | Inr original_name \<Rightarrow>
               (case get_useful_information_from_imdb W movie original_name year st1 of
                  (Inl e, st2) \<Rightarrow> (Inl e, st2)
                | (Inr _, st2) \<Rightarrow> complete_each W verbose rest st2)))"

text \<open>
  \<open>complete_information\<close>: first an empty dictionary for every movie name, then the loop.
\<close>

definition complete_information :: "world \<Rightarrow> bool \<Rightarrow> state \<Rightarrow> (error + unit) \<times> state" where
  "complete_information W verbose st =
     (let st0 = st\<lparr>info := map_of (map (\<lambda>movie_name. (movie_name, Map.empty))
                                       (map fst (movies st)))\<rparr>
      in complete_each W verbose (movies st0) st0)"

section \<open>Auxiliary definitions for the statements\<close>

text \<open>What the three comprehensions make of one critic block.\<close>

definition critic_of_tag :: "pystr \<Rightarrow> error + pystr" where
  "critic_of_tag critics_tag = cut_rating (add_period (clean_string (strip critics_tag)))"

text \<open>
  A detail page that answers every query of the program, a world that serves one page
  for every URL, and a finder with one movie: the inputs of the worked examples.
\<close>

definition example_page :: soup where
  "example_page =
     \<lparr>movie_info_dd = [str ''Up''], se_it_mt = [], description = Some (str ''A story''),
      reviewBody = [],
      result_text = [[\<lparr>a_title = None, a_href = str ''/title/tt1/''\<rparr>]],
      originalTitle = Some (str ''Up (original title)''), title_wrapper = True,
      titleYear = Some [str ''2009''], ratingValue = Some (str ''8.3''),
      list_group_item = Some (Some (str ''https://www.imdb.com/ap/signin''))\<rparr>"

definition world_of :: "soup \<Rightarrow> world" where
  "world_of page =
     \<lparr>requests_get = (\<lambda>url. Inr \<lparr>ok = True, http_error = [], parsed = page\<rparr>),
      session_get = (\<lambda>url. Inr \<lparr>ok = True, http_error = [], parsed = page\<rparr>),
      session_post = (\<lambda>url email password. Inr ()),
      SequenceMatcher_ratio = (\<lambda>a b. 0),
      day = str ''Monday'', gmt5_date = str ''01 Jan 2024 10:00:00 AM ''\<rparr>"

definition example_state :: state where
  "example_state =
     \<lparr>movies = [(str ''Up'', PStr (str ''2009''))], number_critics = 2,
      imdb_credentials = [str ''email'' \<mapsto> str ''a@b.c'', str ''password'' \<mapsto> str ''pw''],
      info = Map.empty, logger = Logger_init, log_txt = None\<rparr>"

definition five_critics_page :: soup where
  "five_critics_page =
     example_page\<lparr>reviewBody := [str ''Good'', str ''Bad.'', str ''c'', str ''d'', str ''e'']\<rparr>"

text \<open>A candidate of the result list with one year element and one link.\<close>

definition candidate :: "string \<Rightarrow> string \<Rightarrow> string \<Rightarrow> se_it" where
  "candidate title listed_year href =
     \<lparr>ye_w = [str listed_year], a_hrefs = [\<lparr>a_title = Some (str title), a_href = str href\<rparr>]\<rparr>"

text \<open>
  The state after the dictionaries were created, a search-result link, and a page
  without a synopsis element.
\<close>

definition initialised_state :: state where
  "initialised_state = example_state\<lparr>info := [str ''Up'' \<mapsto> Map.empty]\<rparr>"

definition result_link :: "string \<Rightarrow> anchor" where
  "result_link href = \<lparr>a_title = None, a_href = str href\<rparr>"

definition no_synopsis_page :: soup where
  "no_synopsis_page = example_page\<lparr>description := None\<rparr>"

text \<open>
  Worlds that answer by URL; any other request fails. On the first site the search for
  \<open>Up\<close> gives a result list without a \<open>movie-info\<close> block and with four candidates, and
  the link of the third candidate gives a detail page.
\<close>

definition blank_page :: soup where
  "blank_page =
     \<lparr>movie_info_dd = [], se_it_mt = [], description = None, reviewBody = [],
      result_text = [], originalTitle = None, title_wrapper = False, titleYear = None,
      ratingValue = None, list_group_item = None\<rparr>"

definition ok_response :: "soup \<Rightarrow> error + response" where
  "ok_response page = Inr \<lparr>ok = True, http_error = [], parsed = page\<rparr>"

definition ambiguous_page :: soup where
  "ambiguous_page =
     blank_page\<lparr>se_it_mt :=
       [candidate ''UP'' ''2018'' ''https://www.filmaffinity.com/en/film1.html'',
        candidate ''Upside'' ''2020'' ''https://www.filmaffinity.com/en/film2.html'',
        candidate ''UP'' ''2021'' ''https://www.filmaffinity.com/en/film3.html'',
        candidate ''UP'' ''2020'' ''https://www.filmaffinity.com/en/film4.html'']\<rparr>"

definition film_page :: soup where
  "film_page = blank_page\<lparr>movie_info_dd := [str ''Up''], description := Some (str ''A story'')\<rparr>"

definition ambiguous_world :: world where
  "ambiguous_world =
     \<lparr>requests_get =
        (\<lambda>url. if url = str ''https://www.filmaffinity.com/en/search.php?stext=up&stype=all''
                then ok_response ambiguous_page
                else if url = str ''https://www.filmaffinity.com/en/film3.html''
                then ok_response film_page
                else Inl RequestException),
      session_get = (\<lambda>url. Inl RequestException),
      session_post = (\<lambda>url email password. Inl RequestException),
      SequenceMatcher_ratio = (\<lambda>a b. 0),
      day = str ''Monday'', gmt5_date = str ''01 Jan 2024 10:00:00 AM ''\<rparr>"

text \<open>
  On the second site: the sign-in page, the result list of the search for \<open>up\<close> with two
  entries, the detail page of the first entry, and two variants of the detail page of the
  second entry, the parameter of the world: one with an \<open>originalTitle\<close> element and
  one with the primary title only.
\<close>

definition signin_page :: soup where
  "signin_page = blank_page\<lparr>list_group_item := Some (Some (str ''https://www.imdb.com/ap/signin''))\<rparr>"

definition results_page :: soup where
  "results_page =
     blank_page\<lparr>result_text := [[result_link ''/title/tt0/''], [result_link ''/title/tt1/'']]\<rparr>"

definition down_page :: soup where
  "down_page =
     blank_page\<lparr>originalTitle := Some (str ''Down (original title)''),
                titleYear := Some [str ''2009''], ratingValue := Some (str ''5.0'')\<rparr>"

definition up_page :: soup where
  "up_page =
     blank_page\<lparr>originalTitle := Some (str ''Up (original title)''),
                titleYear := Some [str ''2009''], ratingValue := Some (str ''8.3'')\<rparr>"

definition up_title_only_page :: soup where
  "up_title_only_page =
     blank_page\<lparr>title_wrapper := True, titleYear := Some [str ''2009''],
                ratingValue := Some (str ''8.3'')\<rparr>"

definition imdb_world :: "soup \<Rightarrow> world" where
  "imdb_world second_page =
     \<lparr>requests_get =
        (\<lambda>url. if url = IMDB_SIGNIN_URL then ok_response signin_page else Inl RequestException),
      session_get =
        (\<lambda>url. if url = str ''https://www.imdb.com/find?q=up&ref_=nv_sr_sm''
                then ok_response results_page
                else if url = str ''https://www.imdb.com/title/tt0/'' then ok_response down_page
                else if url = str ''https://www.imdb.com/title/tt1/'' then ok_response second_page
                else Inl RequestException),
      session_post =
        (\<lambda>url email password.
           if url = Some (str ''https://www.imdb.com/ap/signin'') then Inr ()
           else Inl RequestException),
      SequenceMatcher_ratio = (\<lambda>a b. 0),
      day = str ''Monday'', gmt5_date = str ''01 Jan 2024 10:00:00 AM ''\<rparr>"

section \<open>Examples of the string functions beyond ASCII\<close>

lemma lower_beyond_latin1: "lower [268, 65, 83] = [269, 97, 115]"
  by (simp add: lower_def lower_full_def lower_cp_def lower_segments_def)

lemma lower_final_sigma:
  "lower [927, 916, 927, 931] = [959, 948, 959, 962]"
  "lower [931, 927] = [963, 959]"
  by (simp_all add: lower_def lower_full_def lower_cp_def lower_segments_def final_sigma_def
      in_ranges_def case_ignorable_ranges_def cased_ranges_def)

lemma int_of_str_other_digits: "int_of_str [1634, 1632, 50, 48] = Inr 2020"
  by (simp add: int_of_str_def int_strip_def int_space_def isspace_def parse_unsigned_def
      decimal_value_def ascii_digit_def decimal_zeros_def)

lemma int_of_str_separator: "int_of_str (str ''2020'' @ [31]) = Inl ValueError"
  by (simp add: int_of_str_def str_def int_strip_def int_space_def isspace_def parse_unsigned_def
      decimal_value_def ascii_digit_def)

lemma isdigit_other_digits: "isdigit [1634, 178]" "\<not> isdigit [1634, 95]"
  by (simp_all add: isdigit_def isdigit_cp_def ascii_digit_def in_ranges_def isdigit_ranges_def)

section \<open>Properties of the title accuracy tests\<close>

lemma lev_edit_distance_Nil2: "lev_edit_distance xs [] = length xs"
  by (cases xs) simp_all

lemma lev_edit_distance_sym: "lev_edit_distance a b = lev_edit_distance b a"
proof (induction a b rule: lev_edit_distance.induct)
  case (1 ys)
  show ?case by (simp add: lev_edit_distance_Nil2)
next
  case (2 x xs)
  show ?case by simp
next
  case (3 x xs y ys)
  then show ?case by (simp add: min.commute eq_commute[of x y])
qed

lemma Levenshtein_ratio_sym: "Levenshtein_ratio a b = Levenshtein_ratio b a"
  by (simp add: Levenshtein_ratio_def Let_def add.commute lev_edit_distance_sym[of a b])

lemma lev_edit_distance_refl: "lev_edit_distance a a = 0"
  by (induction a) simp_all

lemma Levenshtein_ratio_refl: "Levenshtein_ratio a a = 1"
  by (simp add: Levenshtein_ratio_def Let_def lev_edit_distance_refl)

text \<open>
  C3. With the default \<open>use_levenshtein = True\<close>, \<open>title_is_accurate a b\<close> is true exactly
  when the Levenshtein ratio of \<open>a\<close> and \<open>b\<close> is at least 0.90, and the test gives the same
  answer with its two arguments exchanged. It holds of any string and itself.
\<close>

theorem title_is_accurate_threshold_sym:
  "(title_is_accurate sm a b True \<longleftrightarrow> Levenshtein_ratio a b \<ge> 9 / 10) \<and>
   title_is_accurate sm a b True = title_is_accurate sm b a True \<and>
   title_is_accurate sm a a True"
  by (simp add: title_is_accurate_def Levenshtein_ratio_sym[of a b] Levenshtein_ratio_refl)

lemma split_from_nonempty: "split_from sep cur s \<noteq> []"
  by (induction sep cur s rule: split_from.induct) simp_all

text \<open>
  C10. Splitting any string, the empty one included, on a space gives at least one piece,
  so the denominator of the legacy accuracy is at least 1 and the legacy
  \<open>title_is_accurate\<close> returns a boolean for every pair of strings.
\<close>

theorem legacy_title_is_accurate_total:
  "length (split original_title (str '' '')) \<ge> 1 \<and>
   (\<exists>b. legacy_title_is_accurate title original_title = Inr b)"
proof -
  have ne: "split original_title (str '' '') \<noteq> []"
    by (simp add: split_def split_from_nonempty)
  then have n: "length (split original_title (str '' '')) \<ge> 1"
    by (cases "split original_title (str '' '')") simp_all
  have "\<exists>b. legacy_title_is_accurate title original_title = Inr b"
    using ne by (auto simp: legacy_title_is_accurate_def Let_def)
  with n show ?thesis by blast
qed

section \<open>Properties of the text cleaning\<close>

lemma set_replace_from: "set (replace_from old new s) \<subseteq> set s \<union> set new"
proof (induction old new s rule: replace_from.induct)
  case (1 old new)
  show ?case by simp
next
  case (2 old new c cs)
  show ?case
  proof (cases "old \<noteq> [] \<and> startswith (c # cs) old")
    case True
    have "set (drop (length old) (c # cs)) \<subseteq> set (c # cs)" by (rule set_drop_subset)
    with 2(1)[OF True] True show ?thesis by auto
  next
    case False
    with 2(2)[OF False] show ?thesis by auto
  qed
qed

lemma set_replace: "set (replace s old new) \<subseteq> set s \<union> set new"
  using set_replace_from[of old new s] by (auto simp: replace_def)

lemma notin_replace: "c \<notin> set s \<Longrightarrow> c \<notin> set new \<Longrightarrow> c \<notin> set (replace s old new)"
  using set_replace[of s old new] by auto

lemma replace_from_single: "c \<notin> set new \<Longrightarrow> c \<notin> set (replace_from [c] new s)"
proof (induction s)
  case Nil
  show ?case by simp
next
  case (Cons x xs)
  then show ?case by (simp add: startswith_def)
qed

lemma replace_single: "c \<notin> set new \<Longrightarrow> c \<notin> set (replace s [c] new)"
  by (simp add: replace_def replace_from_single)

lemma replace_from_absent_head:
  "c \<notin> set s \<Longrightarrow> replace_from (c # p) new s = s"
proof (induction s)
  case Nil
  show ?case by simp
next
  case (Cons x xs)
  then show ?case by (auto simp: startswith_def)
qed

lemma replace_absent_head: "c \<notin> set s \<Longrightarrow> replace s (c # p) new = s"
  by (simp add: replace_def replace_from_absent_head)

lemma replace_from_not_contains:
  "\<not> contains s old \<Longrightarrow> replace_from old new s = s"
proof (induction s)
  case Nil
  show ?case by simp
next
  case (Cons x xs)
  then show ?case by simp
qed

lemma replace_not_contains: "old \<noteq> [] \<Longrightarrow> \<not> contains s old \<Longrightarrow> replace s old new = s"
  by (simp add: replace_def replace_from_not_contains)

lemma set_strip: "set (strip s) \<subseteq> set s"
  unfolding strip_def
  by (metis set_dropWhileD set_rev subsetI)

lemma strip_fixed: "s = [] \<or> (\<not> isspace (hd s) \<and> \<not> isspace (last s)) \<Longrightarrow> strip s = s"
  by (metis dropWhile_eq_self_iff hd_rev rev.simps(1) rev_rev_ident strip_def)

lemma strip_shape: "strip s = [] \<or> (\<not> isspace (hd (strip s)) \<and> \<not> isspace (last (strip s)))"
  by (metis dropWhile_idem hd_dropWhile last_appendR last_rev rev.simps(1)
    rev_rev_ident strip_def takeWhile_dropWhile_id)

lemma strip_strip: "strip (strip s) = strip s"
  using strip_shape[of s] by (rule strip_fixed)

lemma notin_strip: "c \<notin> set s \<Longrightarrow> c \<notin> set (strip s)"
  using set_strip[of s] by auto

lemma notin_trim: "c \<notin> set s \<Longrightarrow> c \<notin> set (if b then strip (take n s) else s)"
  using notin_strip[of c "take n s"] by (auto dest: in_set_takeD)

lemma clean_string_facts:
  "34 \<notin> set (clean_string s) \<and> 39 \<notin> set (clean_string s) \<and> 8220 \<notin> set (clean_string s) \<and>
   strip (clean_string s) = clean_string s"
proof -
  define s1 where "s1 = replace s [34] (str '' '')"
  define s2 where "s2 = replace s1 [39] (str '' '')"
  define s3 where "s3 = replace s2 [39, 44] (str '', '')"
  define s4 where "s4 = replace s3 [39] []"
  define s5 where "s5 = replace s4 (str '' (...) '') (str ''. '')"
  define s6 where "s6 = replace s5 (str '' ('' @ [8230] @ str '') '') (str ''. '')"
  define s7 where "s7 = replace s6 [8220] []"
  define s8 where "s8 = replace s7 (str ''..'') (str ''. '')"
  define s9 where "s9 = replace s8 (str '' ,'') (str '', '')"
  define s10 where "s10 = replace s9 (str ''  '') (str '' '')"
  define s11 where "s11 = strip s10"
  define s12 where "s12 = (if endswith s11 (str ''(FILMAFFINITY)'')
                      then strip (take (length s11 - 14) s11) else s11)"
  define s13 where "s13 = (if endswith s12 (str ''aka'')
                      then strip (take (length s12 - 3) s12) else s12)"
  have cs: "clean_string s = s13"
    by (simp only: clean_string_def Let_def s1_def s2_def s3_def s4_def s5_def s6_def s7_def
        s8_def s9_def s10_def s11_def s12_def s13_def)
  have news: "set (str '' '') \<subseteq> {32, 44, 46}" "set (str '', '') \<subseteq> {32, 44, 46}"
    "set (str ''. '') \<subseteq> {32, 44, 46}" "set ([]::nat list) \<subseteq> {32, 44, 46}"
    by (simp_all add: str_def)
  have keep: "c \<notin> set (replace x old new)"
    if "c \<notin> set x" "c \<notin> {32, 44, 46}" "set new \<subseteq> {32, 44, 46}" for c x old new
    using that by (intro notin_replace) auto
  have tail: "c \<notin> set s13" if "c \<notin> set s7" "c \<notin> {32, 44, 46}" for c
  proof -
    have "c \<notin> set s8" unfolding s8_def using that news by (intro keep)
    then have "c \<notin> set s9" unfolding s9_def using that news by (intro keep)
    then have "c \<notin> set s10" unfolding s10_def using that news by (intro keep)
    then have "c \<notin> set s11" unfolding s11_def by (rule notin_strip)
    then have "c \<notin> set s12" unfolding s12_def by (rule notin_trim)
    then show "c \<notin> set s13" unfolding s13_def by (rule notin_trim)
  qed
  have mid: "c \<notin> set s7" if "c \<notin> set s2" "c \<notin> {32, 44, 46}" for c
  proof -
    have "c \<notin> set s3" unfolding s3_def using that news by (intro keep)
    then have "c \<notin> set s4" unfolding s4_def using that news by (intro keep)
    then have "c \<notin> set s5" unfolding s5_def using that news by (intro keep)
    then have "c \<notin> set s6" unfolding s6_def using that news by (intro keep)
    then show "c \<notin> set s7" unfolding s7_def using that news by (intro keep)
  qed
  have "34 \<notin> set s1" unfolding s1_def by (rule replace_single) (simp add: str_def)
  then have "34 \<notin> set s2" unfolding s2_def using news by (intro keep) auto
  then have a: "34 \<notin> set s13" by (intro tail mid) auto
  have "39 \<notin> set s2" unfolding s2_def by (rule replace_single) (simp add: str_def)
  then have b: "39 \<notin> set s13" by (intro tail mid) auto
  have "8220 \<notin> set s7" unfolding s7_def by (rule replace_single) simp
  then have c: "8220 \<notin> set s13" by (intro tail) auto
  have "\<exists>x. s13 = strip x"
    unfolding s13_def s12_def s11_def by auto
  then have d: "strip s13 = s13" by (auto simp: strip_strip)
  from a b c d show ?thesis by (simp add: cs)
qed

lemma legacy_clean_string_eq: "legacy_clean_string s = clean_string s"
proof -
  have "39 \<notin> set (replace (replace s [34] (str '' '')) [39] (str '' ''))"
    by (rule replace_single) (simp add: str_def)
  then have "39 \<notin> set (replace (replace (replace s [34] (str '' '')) [39] (str '' '')) [39, 44] (str '', ''))"
    by (rule notin_replace) (simp add: str_def)
  then have "replace (replace (replace (replace s [34] (str '' '')) [39] (str '' '')) [39, 44] (str '', '')) [39] new
     = replace (replace (replace s [34] (str '' '')) [39] (str '' '')) [39, 44] (str '', '')" for new
    by (rule replace_absent_head)
  then show ?thesis
    by (simp only: legacy_clean_string_def clean_string_def Let_def)
qed

lemma cs_w1: "clean_string ([34] @ str ''a'' @ [34] @ str '' b aka'') = str ''a b''"
  unfolding clean_string_def Let_def
  by (simp add: str_def replace_def strip_def isspace_def endswith_def startswith_def)

lemma cs_c1: "clean_string (str ''a   b'') = str ''a  b''"
  unfolding clean_string_def Let_def
  by (simp add: str_def replace_def strip_def isspace_def endswith_def startswith_def)

lemma cs_c2: "clean_string (str ''a  b'') = str ''a b''"
  unfolding clean_string_def Let_def
  by (simp add: str_def replace_def strip_def isspace_def endswith_def startswith_def)

text \<open>
  C5, as amended. A second pass of \<open>clean_string\<close> leaves the result of the first pass
  unchanged whenever that result holds none of the patterns the pipeline rewrites: no
  parenthesised ellipsis marker between spaces, no doubled period, no space before a
  comma, no doubled space, and neither of the two trimmed suffixes at its end. The older
  \<open>clean_string\<close> computes the same function, so the same holds for it.
\<close>

theorem clean_string_idempotent_when_settled:
  assumes "\<not> contains (clean_string s) (str '' (...) '')"
    and "\<not> contains (clean_string s) (str '' ('' @ [8230] @ str '') '')"
    and "\<not> contains (clean_string s) (str ''..'')"
    and "\<not> contains (clean_string s) (str '' ,'')"
    and "\<not> contains (clean_string s) (str ''  '')"
    and "\<not> endswith (clean_string s) (str ''(FILMAFFINITY)'')"
    and "\<not> endswith (clean_string s) (str ''aka'')"
  shows "clean_string (clean_string s) = clean_string s \<and>
         legacy_clean_string (legacy_clean_string s) = legacy_clean_string s"
proof -
  define t where "t = clean_string s"
  note f = clean_string_facts[of s, folded t_def]
  note h = assms[folded t_def]
  have r1: "replace t [34] new = t" for new using f by (simp add: replace_absent_head)
  have r2: "replace t [39] new = t" for new using f by (simp add: replace_absent_head)
  have r3: "replace t [39, 44] new = t" for new using f by (simp add: replace_absent_head)
  have r5: "replace t (str '' (...) '') new = t" for new
    using h(1) by (intro replace_not_contains) (simp_all add: str_def)
  have r6: "replace t (str '' ('' @ [8230] @ str '') '') new = t" for new
    using h(2) by (intro replace_not_contains) (simp_all add: str_def)
  have r7: "replace t [8220] new = t" for new using f by (simp add: replace_absent_head)
  have r8: "replace t (str ''..'') new = t" for new
    using h(3) by (intro replace_not_contains) (simp_all add: str_def)
  have r9: "replace t (str '' ,'') new = t" for new
    using h(4) by (intro replace_not_contains) (simp_all add: str_def)
  have r10: "replace t (str ''  '') new = t" for new
    using h(5) by (intro replace_not_contains) (simp_all add: str_def)
  have r11: "strip t = t" using f by simp
  have "clean_string t = t"
    unfolding clean_string_def Let_def
    by (simp only: r1 r2 r3 r5 r6 r7 r8 r9 r10 r11 h(6) h(7) if_False)
  then show ?thesis
    by (simp add: t_def legacy_clean_string_eq)
qed

theorem clean_string_idempotent_when_settled_witness:
  "\<not> contains (clean_string ([34] @ str ''a'' @ [34] @ str '' b aka'')) (str ''  '') \<and>
   \<not> endswith (clean_string ([34] @ str ''a'' @ [34] @ str '' b aka'')) (str ''aka'') \<and>
   clean_string (clean_string ([34] @ str ''a'' @ [34] @ str '' b aka'')) = str ''a b''"
  using clean_string_idempotent_when_settled[of "[34] @ str ''a'' @ [34] @ str '' b aka''"]
  unfolding cs_w1
  by (simp add: str_def endswith_def startswith_def)

text \<open>
  C5 as stated fails: each replacement is a single pass without overlap, so three spaces
  become two on the first pass and one on the second.
\<close>

theorem clean_string_not_idempotent:
  "clean_string (clean_string (str ''a   b'')) \<noteq> clean_string (str ''a   b'')"
  unfolding cs_c1 cs_c2 by (simp add: str_def)

section \<open>Properties of the year search\<close>

lemma decimal_value_ascii: "ascii_digit c \<Longrightarrow> decimal_value c = Some (c - 48)"
  by (simp add: decimal_value_def)

lemma parse_digits_total: "list_all ascii_digit ds \<Longrightarrow> \<exists>v. parse_digits acc ds = Some v"
  by (induction ds arbitrary: acc) (auto simp: decimal_value_ascii)

lemma ascii_digit_not_space: "ascii_digit c \<Longrightarrow> \<not> int_space c"
  by (auto simp: ascii_digit_def int_space_def isspace_def)

lemma int_strip_fixed:
  "s = [] \<or> (\<not> int_space (hd s) \<and> \<not> int_space (last s)) \<Longrightarrow> int_strip s = s"
  by (metis dropWhile_eq_self_iff hd_rev rev.simps(1) rev_rev_ident int_strip_def)

lemma strip_digits: "list_all ascii_digit ds \<Longrightarrow> int_strip ds = ds"
proof (cases ds)
  case Nil
  then show ?thesis by (simp add: int_strip_def)
next
  case (Cons d ds')
  assume a: "list_all ascii_digit ds"
  then have "ascii_digit (hd ds)" using Cons by simp
  moreover have "ascii_digit (last ds)" using a Cons
    by (metis last_in_set list.distinct(1) list_all_iff)
  ultimately show ?thesis
    by (intro int_strip_fixed) (auto dest: ascii_digit_not_space)
qed

lemma int_of_str_digits:
  assumes "ds \<noteq> []" "list_all ascii_digit ds" "length ds \<le> 4300"
  shows "\<exists>v. int_of_str ds = Inr v"
proof -
  obtain d ds' where ds: "ds = d # ds'" using assms(1) by (cases ds) auto
  have d: "ascii_digit d" using assms(2) ds by simp
  then have nd: "d \<noteq> 43" "d \<noteq> 45" by (auto simp: ascii_digit_def)
  have st: "int_strip (d # ds') = d # ds'" using strip_digits[OF assms(2)] ds by simp
  obtain v where "parse_digits 0 (d # ds') = Some v"
    using parse_digits_total[OF assms(2), of 0] ds by auto
  moreover have "filter (\<lambda>c. decimal_value c \<noteq> None) (d # ds') = d # ds'"
    using assms(2) ds by (auto simp: list_all_iff decimal_value_ascii)
  ultimately show ?thesis
    using d nd assms(3) ds
    by (simp add: int_of_str_def Let_def st parse_unsigned_def decimal_value_ascii)
qed

lemma inner_loop_closed:
  "41 \<notin> set ds \<Longrightarrow>
   inner_loop py f (ds @ 41 # post) =
     (case int_of_str (py @ ds) of Inr _ \<Rightarrow> (py @ ds, True) | Inl _ \<Rightarrow> ([], f))"
  by (induction ds arbitrary: py) (auto split: sum.splits)

lemma outer_loop_found: "outer_loop string cont True py rest = py"
  by (cases rest) auto

lemma outer_loop_skip:
  "40 \<notin> set pre \<Longrightarrow>
   outer_loop string cont False py (pre @ rest) = outer_loop string (cont + length pre) False py rest"
  by (induction pre arbitrary: cont) auto

lemma outer_loop_no_paren: "40 \<notin> set s \<Longrightarrow> outer_loop string cont False py s = py"
  by (induction s arbitrary: cont) auto

lemma match_group_closed:
  "41 \<notin> set ds \<Longrightarrow> 10 \<notin> set ds \<Longrightarrow> match_group body (ds @ 41 # post) = Some (body @ ds, post)"
  by (induction ds arbitrary: body) auto

lemma findall_parens_skip: "40 \<notin> set pre \<Longrightarrow> findall_parens (pre @ rest) = findall_parens rest"
  by (induction pre) auto

lemma findall_parens_no_paren: "40 \<notin> set s \<Longrightarrow> findall_parens s = []"
  by (induction s) auto

lemma digits_no_special:
  "list_all ascii_digit ds \<Longrightarrow> 41 \<notin> set ds \<and> 10 \<notin> set ds"
  by (auto simp: list_all_iff ascii_digit_def)

text \<open>
  C9, as amended. The older character loop and the regex rewrite of
  \<open>find_year_in_unformatted_text\<close> agree in two cases: on a text without an opening
  parenthesis both return the empty string, and when the first opening parenthesis is
  followed by a run of at most 4300 ASCII digits that is not empty and then a closing
  parenthesis, both return that run.
\<close>

theorem find_year_agree:
  "(40 \<notin> set s \<longrightarrow>
      legacy_find_year_in_unformatted_text s = [] \<and> find_year_in_unformatted_text s = []) \<and>
   (40 \<notin> set pre \<and> ds \<noteq> [] \<and> list_all ascii_digit ds \<and> length ds \<le> 4300 \<longrightarrow>
      legacy_find_year_in_unformatted_text (pre @ [40] @ ds @ [41] @ post) = ds \<and>
      find_year_in_unformatted_text (pre @ [40] @ ds @ [41] @ post) = ds)"
proof (intro conjI impI)
  assume "40 \<notin> set s"
  then show "legacy_find_year_in_unformatted_text s = []"
    by (simp add: legacy_find_year_in_unformatted_text_def outer_loop_no_paren)
next
  assume "40 \<notin> set s"
  then show "find_year_in_unformatted_text s = []"
    by (simp add: find_year_in_unformatted_text_def findall_parens_no_paren)
next
  assume a: "40 \<notin> set pre \<and> ds \<noteq> [] \<and> list_all ascii_digit ds \<and> length ds \<le> 4300"
  let ?string = "pre @ [40] @ ds @ [41] @ post"
  from a obtain v where v: "int_of_str ds = Inr v" using int_of_str_digits by blast
  have sp: "41 \<notin> set ds" "10 \<notin> set ds" using a digits_no_special by auto
  have "outer_loop ?string 0 False [] ?string
        = outer_loop ?string (length pre) False [] (40 # ds @ 41 # post)"
    using outer_loop_skip[of pre ?string 0 "[]" "40 # ds @ 41 # post"] a by simp
  also have "\<dots> = ds"
    using inner_loop_closed[OF sp(1), of "[]" False post] v
    by (simp add: outer_loop_found)
  finally show "legacy_find_year_in_unformatted_text ?string = ds"
    by (simp add: legacy_find_year_in_unformatted_text_def)
next
  assume a: "40 \<notin> set pre \<and> ds \<noteq> [] \<and> list_all ascii_digit ds \<and> length ds \<le> 4300"
  let ?string = "pre @ [40] @ ds @ [41] @ post"
  have sp: "41 \<notin> set ds" "10 \<notin> set ds" using a digits_no_special by auto
  have "findall_parens ?string = findall_parens (40 # ds @ 41 # post)"
    using findall_parens_skip[of pre "40 # ds @ 41 # post"] a by simp
  also have "\<dots> = (40 # ds @ [41]) # findall_parens post"
    using match_group_closed[OF sp, of "[]" post] by simp
  finally have "findall_parens ?string = (40 # ds @ [41]) # findall_parens post" .
  moreover have "isdigit ds" using a by (auto simp: isdigit_def isdigit_cp_def list_all_iff)
  ultimately show "find_year_in_unformatted_text ?string = ds"
    by (simp add: find_year_in_unformatted_text_def butlast_append)
qed

theorem find_year_agree_witness:
  "legacy_find_year_in_unformatted_text (str ''ab'') = [] \<and>
   find_year_in_unformatted_text (str ''ab'') = [] \<and>
   legacy_find_year_in_unformatted_text (str ''x (2019) (TV)'') = str ''2019'' \<and>
   find_year_in_unformatted_text (str ''x (2019) (TV)'') = str ''2019''"
  using find_year_agree[of "str ''ab''" "str ''x ''" "str ''2019''" "str '' (TV)''"]
  by (simp add: str_def ascii_digit_def)

text \<open>
  C9 as stated fails. The older loop accepts whatever \<open>int\<close> parses, so it returns the
  signed \<open>+7\<close> that \<open>isdigit\<close> refuses; and after a first group that is no number it
  does not find the year in a later group, which the rewrite returns.
\<close>

theorem find_year_differs:
  "legacy_find_year_in_unformatted_text (str ''(+7)'') = str ''+7'' \<and>
   find_year_in_unformatted_text (str ''(+7)'') = [] \<and>
   legacy_find_year_in_unformatted_text (str ''(a) (2019)'') = [] \<and>
   find_year_in_unformatted_text (str ''(a) (2019)'') = str ''2019''"
  by (simp add: legacy_find_year_in_unformatted_text_def find_year_in_unformatted_text_def
      str_def int_of_str_def int_strip_def int_space_def isspace_def parse_unsigned_def
      decimal_value_def ascii_digit_def isdigit_def isdigit_cp_def)

section \<open>Properties of the logger\<close>

text \<open>
  C2 fails on the code. Every call site passes the failure message as an argument, and
  \<open>Logger.log\<close> takes none: the call raises TypeError, nothing is appended to the log
  file, and the state is unchanged.
\<close>

theorem Logger_log_message_raises:
  "Logger_log W [PStr failure_message] st = (Inl TypeError, st)"
  by (simp add: Logger_log_def)

section \<open>Properties of the candidate resolver\<close>

lemma soup_from_url_world_of: "soup_from_url (world_of page) url s st = (Inr page, st)"
  by (simp add: soup_from_url_def world_of_def)

lemma int_of_str_2018: "int_of_str (str ''2018'') = Inr 2018"
  by (simp add: int_of_str_def str_def int_strip_def int_space_def isspace_def parse_unsigned_def
      decimal_value_def ascii_digit_def)

lemma int_of_str_2021: "int_of_str (str ''2021'') = Inr 2021"
  by (simp add: int_of_str_def str_def int_strip_def int_space_def isspace_def parse_unsigned_def
      decimal_value_def ascii_digit_def)

lemma strip_year: "strip (str ''2018'') = str ''2018''" "strip (str ''2021'') = str ''2021''"
  "strip (str ''2020'') = str ''2020''"
  by (simp_all add: str_def strip_def isspace_def)

lemma lower_titles:
  "lower (strip (str ''UP'')) = lower (str ''Up'')"
  "lower (strip (str ''Upside'')) \<noteq> lower (str ''Up'')"
  by (simp_all add: str_def strip_def isspace_def lower_def lower_full_def lower_cp_def)

lemma scan_possible_movies_skip:
  "\<forall>p\<in>set pre. possible_movie_matches movie_name year p = Inr False \<Longrightarrow>
   scan_possible_movies W movie_name year (pre @ rest) cur st =
   scan_possible_movies W movie_name year rest cur st"
  by (induction pre) simp_all

text \<open>
  The loop of the fallback, taken alone. A candidate whose title equals the display title
  without regard to case, with listed year \<open>listed\<close> and query year \<open>Y\<close>, passes the test
  of the loop exactly when \<open>Y - 1 \<le> listed \<le> Y + 1\<close>; a candidate whose title differs
  does not pass, whatever its year; and the loop fetches the page of the first candidate
  that passes.
\<close>

lemma fallback_loop_rule:
  "(a_hrefs c = tag # ts \<and> a_title tag = Some title \<and>
    lower (strip title) = lower movie_name \<and>
    ye_w c = y # ys \<and> int_of_str (strip y) = Inr listed \<and> py_int year = Inr Y \<longrightarrow>
      possible_movie_matches movie_name year c = Inr (Y - 1 \<le> listed \<and> listed \<le> Y + 1)) \<and>
   (a_hrefs c' = tag' # ts' \<and> a_title tag' = Some title' \<and>
    lower (strip title') \<noteq> lower movie_name \<longrightarrow>
      possible_movie_matches movie_name year c' = Inr False) \<and>
   ((\<forall>p\<in>set pre. possible_movie_matches movie_name year p = Inr False) \<and>
    possible_movie_matches movie_name year c = Inr True \<and> a_hrefs c = tag # ts \<longrightarrow>
      scan_possible_movies W movie_name year (pre @ c # rest) cur st =
        (case soup_from_url W (a_href tag) None st of
           (Inl e, st') \<Rightarrow> (Inl e, st')
         | (Inr soup', st') \<Rightarrow>
             (case first (movie_info_dd soup') of
                Inl e \<Rightarrow> (Inl e, st')
              | Inr dd \<Rightarrow> (Inr (soup', strip dd), st'))))"
proof (intro conjI impI)
  assume a: "a_hrefs c = tag # ts \<and> a_title tag = Some title \<and>
    lower (strip title) = lower movie_name \<and>
    ye_w c = y # ys \<and> int_of_str (strip y) = Inr listed \<and> py_int year = Inr Y"
  show "possible_movie_matches movie_name year c = Inr (Y - 1 \<le> listed \<and> listed \<le> Y + 1)"
  proof (cases "PStr (strip y) = year")
    case True
    then have "py_int year = int_of_str (strip y)" by auto
    moreover from a have "py_int year = Inr Y" by simp
    moreover from a have "int_of_str (strip y) = Inr listed" by simp
    ultimately have "listed = Y" by simp
    with a True show ?thesis
      by (simp add: possible_movie_matches_def year_in_tolerance_def)
  next
    case False
    with a show ?thesis
      by (simp add: possible_movie_matches_def year_in_tolerance_def)
  qed
next
  assume "a_hrefs c' = tag' # ts' \<and> a_title tag' = Some title' \<and>
    lower (strip title') \<noteq> lower movie_name"
  then show "possible_movie_matches movie_name year c' = Inr False"
    by (simp add: possible_movie_matches_def)
next
  assume a: "(\<forall>p\<in>set pre. possible_movie_matches movie_name year p = Inr False) \<and>
    possible_movie_matches movie_name year c = Inr True \<and> a_hrefs c = tag # ts"
  then have "scan_possible_movies W movie_name year (pre @ c # rest) cur st =
             scan_possible_movies W movie_name year (c # rest) cur st"
    using scan_possible_movies_skip by blast
  with a show "scan_possible_movies W movie_name year (pre @ c # rest) cur st =
        (case soup_from_url W (a_href tag) None st of
           (Inl e, st') \<Rightarrow> (Inl e, st')
         | (Inr soup', st') \<Rightarrow>
             (case first (movie_info_dd soup') of
                Inl e \<Rightarrow> (Inl e, st')
              | Inr dd \<Rightarrow> (Inr (soup', strip dd), st')))"
    by simp
qed

lemma up_search_url:
  "join_words (str ''-'') (map (\<lambda>word. lower (strip word)) (split (str ''Up'') (str '' '')))
   = Inr (str ''up'')"
  by (simp add: str_def split_def startswith_def join_words_def strip_def isspace_def
      lower_def lower_full_def lower_cp_def)

lemma fetch_search_page:
  "soup_from_url ambiguous_world (FILMAFFINITY_URL_ROOT @ str ''up'' @ str ''&stype=all'') None st
   = (Inr ambiguous_page, st)"
  by (simp add: soup_from_url_def ambiguous_world_def ok_response_def FILMAFFINITY_URL_ROOT_def
      str_def)

lemma fetch_film3:
  "soup_from_url ambiguous_world (str ''https://www.filmaffinity.com/en/film3.html'') None st
   = (Inr film_page, st)"
  by (simp add: soup_from_url_def ambiguous_world_def ok_response_def str_def)

lemma matches_2021:
  "possible_movie_matches (str ''Up'') (PInt 2020)
     (candidate ''UP'' ''2021'' ''https://www.filmaffinity.com/en/film3.html'') = Inr True"
  by (simp add: possible_movie_matches_def year_in_tolerance_def candidate_def
      lower_titles strip_year int_of_str_2021)

lemma matches_2018_url:
  "possible_movie_matches (str ''Up'') (PInt 2020)
     (candidate ''UP'' ''2018'' ''https://www.filmaffinity.com/en/film1.html'') = Inr False"
  by (simp add: possible_movie_matches_def year_in_tolerance_def candidate_def
      lower_titles strip_year int_of_str_2018)

lemma matches_other_url:
  "possible_movie_matches (str ''Up'') (PInt 2020)
     (candidate ''Upside'' ''2020'' ''https://www.filmaffinity.com/en/film2.html'') = Inr False"
  by (simp add: possible_movie_matches_def candidate_def lower_titles)

lemma scan_ambiguous_page:
  "scan_possible_movies ambiguous_world (str ''Up'') (PInt 2020) (se_it_mt ambiguous_page)
     (ambiguous_page, []) st = (Inr (film_page, str ''Up''), st)"
proof -
  have h: "a_hrefs (candidate ''UP'' ''2021'' ''https://www.filmaffinity.com/en/film3.html'')
           = [\<lparr>a_title = Some (str ''UP''),
                a_href = str ''https://www.filmaffinity.com/en/film3.html''\<rparr>]"
    by (simp add: candidate_def)
  have d: "movie_info_dd film_page = [str ''Up'']" by (simp add: film_page_def blank_page_def)
  have s: "strip (str ''Up'') = str ''Up''" by (simp add: str_def strip_def isspace_def)
  have c: "se_it_mt ambiguous_page =
       [candidate ''UP'' ''2018'' ''https://www.filmaffinity.com/en/film1.html'',
        candidate ''Upside'' ''2020'' ''https://www.filmaffinity.com/en/film2.html'',
        candidate ''UP'' ''2021'' ''https://www.filmaffinity.com/en/film3.html'',
        candidate ''UP'' ''2020'' ''https://www.filmaffinity.com/en/film4.html'']"
    by (simp add: ambiguous_page_def blank_page_def)
  show ?thesis
    by (simp add: c matches_2018_url matches_other_url matches_2021 h fetch_film3 d s)
qed

lemma find_original_name_ambiguous:
  "find_original_name ambiguous_world (str ''Up'') (PInt 2020) st = (Inl TypeError, st)"
proof -
  have d: "movie_info_dd ambiguous_page = []" by (simp add: ambiguous_page_def blank_page_def)
  show ?thesis
    unfolding find_original_name_def Let_def
    by (simp add: up_search_url fetch_search_page d Logger_log_def)
qed

text \<open>
  Whatever the web answers: when the page of the search has no \<open>movie-info\<close> block, the
  resolver ends with the TypeError of the logger call and never enters the loop.
\<close>

lemma resolver_raises_without_info_block:
  assumes "join_words (str ''-'') (map (\<lambda>word. lower (strip word)) (split movie_name (str '' '')))
           = Inr parsed_movie_name"
    and "soup_from_url W (FILMAFFINITY_URL_ROOT @ parsed_movie_name @ str ''&stype=all'') None st
         = (Inr soup, st')"
    and "movie_info_dd soup = []"
  shows "find_original_name W movie_name movie_year st = (Inl TypeError, st')"
  unfolding find_original_name_def Let_def
  using assms by (simp add: Logger_log_def)

text \<open>
  C4 fails on the code. The search for \<open>Up\<close> with year 2020 gives a result list whose
  third candidate has the title \<open>UP\<close> and the year 2021: it passes the test of the
  fallback loop, and the loop run on the list fetches its detail page. The resolver never
  gets there: the logger call in front of the loop raises TypeError, no candidate is
  taken, no detail page is fetched and nothing is stored.
\<close>

theorem resolver_fallback_not_reached:
  "possible_movie_matches (str ''Up'') (PInt 2020)
     (candidate ''UP'' ''2021'' ''https://www.filmaffinity.com/en/film3.html'') = Inr True \<and>
   scan_possible_movies ambiguous_world (str ''Up'') (PInt 2020) (se_it_mt ambiguous_page)
     (ambiguous_page, []) example_state = (Inr (film_page, str ''Up''), example_state) \<and>
   get_useful_information_from_filmaffinity ambiguous_world (str ''Up'') (PInt 2020)
     example_state = (Inl TypeError, example_state)"
  by (simp add: matches_2021 scan_ambiguous_page get_useful_information_from_filmaffinity_def
      find_original_name_ambiguous)

lemma split_nonempty: "split s sep \<noteq> []"
  by (simp add: split_def split_from_nonempty)

lemma cut_rating_total: "\<exists>c. cut_rating critic = Inr c"
  using split_nonempty[of critic "str ''Rating''"]
  by (cases "split critic (str ''Rating'')") (auto simp: cut_rating_def)

lemma map_result_total:
  "(\<And>x. \<exists>y. f x = Inr y) \<Longrightarrow>
   \<exists>ys. map_result f xs = Inr ys \<and> length ys = length xs \<and> (\<forall>i<length xs. f (xs ! i) = Inr (ys ! i))"
proof (induction xs)
  case Nil
  show ?case by simp
next
  case (Cons x xs)
  from Cons.prems obtain y where y: "f x = Inr y" by blast
  from Cons obtain ys where ys: "map_result f xs = Inr ys" "length ys = length xs"
    "\<forall>i<length xs. f (xs ! i) = Inr (ys ! i)" by blast
  have "\<forall>i<length (x # xs). f ((x # xs) ! i) = Inr ((y # ys) ! i)"
    using y ys(3) by (auto simp: nth_Cons split: nat.splits)
  with y ys show ?case by simp
qed

lemma enumerate_filter_take:
  "map snd (filter (\<lambda>(index, x). int index < cap) (enumerate k xs)) = take (nat (cap - int k)) xs"
proof (induction xs arbitrary: k)
  case Nil
  show ?case by simp
next
  case (Cons x xs)
  show ?case
  proof (cases "int k < cap")
    case True
    then have "nat (cap - int k) = Suc (nat (cap - int (Suc k)))" by simp
    with True Cons[of "Suc k"] show ?thesis by simp
  next
    case False
    then have z: "nat (cap - int k) = 0" by simp
    have "filter (\<lambda>(index, x). int index < cap) (enumerate (Suc k) xs) = []"
      using False by (auto simp: filter_empty_conv in_set_enumerate_eq)
    with False z show ?thesis by simp
  qed
qed

lemma extract_critics_take:
  assumes "critics_tags \<noteq> []"
  shows "\<exists>cs. extract_critics cap critics_tags = Inr (PList (map PStr cs)) \<and>
              length cs = length (take (nat cap) critics_tags) \<and>
              (\<forall>i<length cs. critic_of_tag (critics_tags ! i) = Inr (cs ! i))"
proof -
  let ?sel = "filter (\<lambda>(index, critics_tag). int index < cap) (enumerate 0 critics_tags)"
  have sel: "map (\<lambda>(index, critics_tag). clean_string (strip critics_tag)) ?sel
             = map (\<lambda>t. clean_string (strip t)) (take (nat cap) critics_tags)"
  proof -
    have "map (\<lambda>(index, critics_tag). clean_string (strip critics_tag)) ?sel
          = map (\<lambda>t. clean_string (strip t)) (map snd ?sel)"
      by (simp add: case_prod_beta comp_def)
    then show ?thesis using enumerate_filter_take[of cap 0 critics_tags] by simp
  qed
  let ?c2 = "map add_period (map (\<lambda>t. clean_string (strip t)) (take (nat cap) critics_tags))"
  obtain cs where cs: "map_result cut_rating ?c2 = Inr cs" "length cs = length ?c2"
    "\<forall>i<length ?c2. cut_rating (?c2 ! i) = Inr (cs ! i)"
    using map_result_total[of cut_rating ?c2, OF cut_rating_total] by blast
  have "\<forall>i<length cs. critic_of_tag (critics_tags ! i) = Inr (cs ! i)"
    using cs(2,3) by (auto simp: critic_of_tag_def)
  with cs assms show ?thesis
    by (auto simp: extract_critics_def Let_def sel)
qed

lemma find_original_name_example:
  "movie_info_dd page = [str ''Up''] \<Longrightarrow>
   find_original_name (world_of page) (str ''Up'') year st = (Inr (page, str ''Up''), st)"
  unfolding find_original_name_def Let_def
  by (simp add: soup_from_url_world_of str_def split_def startswith_def
      join_words_def strip_def isspace_def lower_def lower_full_def lower_cp_def)

text \<open>
  C6. When the page the resolver works on has more critic blocks than
  \<open>number_critics\<close>, the stored critics are a list of exactly \<open>number_critics\<close> texts,
  the \<open>i\<close>-th of which is made from the \<open>i\<close>-th block of the page: the first blocks in
  document order.
\<close>

theorem critics_capped:
  assumes "find_original_name W movie_name movie_year st = (Inr (soup, original_name), st')"
    and "description soup = Some synopsis_text"
    and "0 \<le> number_critics st'"
    and "number_critics st' < int (length (reviewBody soup))"
  shows "\<exists>d cs. get_useful_information_from_filmaffinity W movie_name movie_year st =
                   (Inr (), st'\<lparr>info := (info st')(movie_name \<mapsto> d)\<rparr>) \<and>
                 d (str ''critics'') = Some (PList (map PStr cs)) \<and>
                 length cs = nat (number_critics st') \<and>
                 (\<forall>i<length cs. critic_of_tag (reviewBody soup ! i) = Inr (cs ! i))"
proof -
  have ne: "reviewBody soup \<noteq> []" using assms(3,4) by auto
  obtain cs where cs:
    "extract_critics (number_critics st') (reviewBody soup) = Inr (PList (map PStr cs))"
    "length cs = length (take (nat (number_critics st')) (reviewBody soup))"
    "\<forall>i<length cs. critic_of_tag (reviewBody soup ! i) = Inr (cs ! i)"
    using extract_critics_take[OF ne] by blast
  have len: "length cs = nat (number_critics st')" using cs(2) assms(3,4) by simp
  have keys: "str ''critics'' \<noteq> str ''imdb_rating''" by (simp add: str_def)
  obtain d where d: "useful_information (number_critics st') soup original_name movie_year = Inr d"
    "d (str ''critics'') = Some (PList (map PStr cs))"
    using assms(2) cs(1) keys by (simp add: useful_information_def Let_def)
  have "get_useful_information_from_filmaffinity W movie_name movie_year st =
          (Inr (), st'\<lparr>info := (info st')(movie_name \<mapsto> d)\<rparr>)"
    using assms(1) d(1) by (simp add: get_useful_information_from_filmaffinity_def)
  with d(2) len cs(3) show ?thesis by blast
qed

theorem critics_capped_witness:
  "\<exists>d cs. get_useful_information_from_filmaffinity (world_of five_critics_page) (str ''Up'')
          (PStr (str ''2009'')) example_state =
          (Inr (), example_state\<lparr>info := (info example_state)(str ''Up'' \<mapsto> d)\<rparr>) \<and>
        d (str ''critics'') = Some (PList (map PStr cs)) \<and> length cs = 2 \<and>
        critic_of_tag (str ''Good'') = Inr (cs ! 0) \<and> critic_of_tag (str ''Bad.'') = Inr (cs ! 1)"
proof -
  have 1: "find_original_name (world_of five_critics_page) (str ''Up'') (PStr (str ''2009''))
             example_state = (Inr (five_critics_page, str ''Up''), example_state)"
    by (rule find_original_name_example) (simp add: five_critics_page_def example_page_def)
  have 2: "description five_critics_page = Some (str ''A story'')"
    by (simp add: five_critics_page_def example_page_def)
  have 3: "0 \<le> number_critics example_state" by (simp add: example_state_def)
  have 4: "number_critics example_state < int (length (reviewBody five_critics_page))"
    by (simp add: example_state_def five_critics_page_def)
  from critics_capped[OF 1 2 3 4] obtain d cs where
    r: "get_useful_information_from_filmaffinity (world_of five_critics_page) (str ''Up'')
          (PStr (str ''2009'')) example_state =
          (Inr (), example_state\<lparr>info := (info example_state)(str ''Up'' \<mapsto> d)\<rparr>)"
       "d (str ''critics'') = Some (PList (map PStr cs))"
       "length cs = nat (number_critics example_state)"
       "\<forall>i<length cs. critic_of_tag (reviewBody five_critics_page ! i) = Inr (cs ! i)"
    by blast
  have l: "length cs = 2" using r(3) by (simp add: example_state_def)
  have "critic_of_tag (reviewBody five_critics_page ! 0) = Inr (cs ! 0)"
       "critic_of_tag (reviewBody five_critics_page ! 1) = Inr (cs ! 1)"
    using r(4) l by auto
  then have "critic_of_tag (str ''Good'') = Inr (cs ! 0)" "critic_of_tag (str ''Bad.'') = Inr (cs ! 1)"
    by (simp_all add: five_critics_page_def)
  with r(1,2) l show ?thesis by blast
qed

text \<open>
  C7. When the page the resolver works on has no critic block, the stored critics field
  is \<open>None\<close>, not an empty list.
\<close>

theorem no_critics_is_None:
  assumes "find_original_name W movie_name movie_year st = (Inr (soup, original_name), st')"
    and "description soup = Some synopsis_text"
    and "reviewBody soup = []"
  shows "\<exists>d. get_useful_information_from_filmaffinity W movie_name movie_year st =
                (Inr (), st'\<lparr>info := (info st')(movie_name \<mapsto> d)\<rparr>) \<and>
              d (str ''critics'') = Some PNone \<and> d (str ''critics'') \<noteq> Some (PList [])"
proof -
  have keys: "str ''critics'' \<noteq> str ''imdb_rating''" by (simp add: str_def)
  obtain d where d: "useful_information (number_critics st') soup original_name movie_year = Inr d"
    "d (str ''critics'') = Some PNone"
    using assms(2,3) keys by (simp add: useful_information_def Let_def extract_critics_def)
  have "get_useful_information_from_filmaffinity W movie_name movie_year st =
          (Inr (), st'\<lparr>info := (info st')(movie_name \<mapsto> d)\<rparr>)"
    using assms(1) d(1) by (simp add: get_useful_information_from_filmaffinity_def)
  with d(2) show ?thesis by auto
qed

theorem no_critics_is_None_witness:
  "\<exists>d. get_useful_information_from_filmaffinity (world_of example_page) (str ''Up'')
          (PStr (str ''2009'')) example_state =
          (Inr (), example_state\<lparr>info := (info example_state)(str ''Up'' \<mapsto> d)\<rparr>) \<and>
        d (str ''critics'') = Some PNone \<and> d (str ''critics'') \<noteq> Some (PList [])"
proof -
  have 1: "find_original_name (world_of example_page) (str ''Up'') (PStr (str ''2009''))
             example_state = (Inr (example_page, str ''Up''), example_state)"
    by (rule find_original_name_example) (simp add: example_page_def)
  have 2: "description example_page = Some (str ''A story'')" by (simp add: example_page_def)
  have 3: "reviewBody example_page = []" by (simp add: example_page_def)
  show ?thesis by (rule no_critics_is_None[OF 1 2 3])
qed

section \<open>Properties of the cross-source matcher\<close>

lemma scan_search_items_skip:
  "\<forall>item\<in>set pre. \<exists>link links. item = link # links \<and>
      examine_entry W movie_name original_movie_name movie_year
        (str ''https://www.imdb.com'' @ a_href link) s st = (Inr False, st) \<Longrightarrow>
   scan_search_items W movie_name original_movie_name movie_year s (pre @ rest) st =
   scan_search_items W movie_name original_movie_name movie_year s rest st"
proof (induction pre)
  case Nil
  show ?case by simp
next
  case (Cons item pre)
  from Cons.prems obtain link links where
    "item = link # links"
    "examine_entry W movie_name original_movie_name movie_year
        (str ''https://www.imdb.com'' @ a_href link) s st = (Inr False, st)"
    by auto
  with Cons show ?case by simp
qed

lemma name_of_example_page: "current_movie_name_of example_page = Inr (str ''up'')"
  by (simp add: current_movie_name_of_def example_page_def str_def split_def startswith_def strip_def isspace_def lower_def lower_full_def lower_cp_def)

lemma year_of_example_page: "current_movie_year_of example_page = Inr (str ''2009'')"
  by (simp add: current_movie_year_of_def example_page_def str_def strip_def
      isspace_def)

lemma accurate_up: "title_is_accurate sm (str ''up'') (str ''up'') True"
  by (simp add: title_is_accurate_def Levenshtein_ratio_def str_def)

lemma not_accurate_down: "\<not> title_is_accurate sm (str ''down'') (str ''up'') True"
  by (simp add: title_is_accurate_def Levenshtein_ratio_def str_def)

text \<open>
  The loop of the matcher, taken alone. An entry whose detail page gives an
  \<open>originalTitle\<close>, a year and a rating is accepted exactly when \<open>title_is_accurate\<close>
  holds for the page title and the canonical title and the page's year text equals the
  query year; once an entry is accepted the entries after it are not examined.
\<close>

lemma entry_acceptance_rule:
  "(session_get W new_url = Inr res \<and> ok res \<and>
    current_movie_name_of (parsed res) = Inr current_movie_name \<and>
    current_movie_year_of (parsed res) = Inr current_movie_year \<and>
    ratingValue (parsed res) = Some r \<and> info st movie_name = Some d \<longrightarrow>
      examine_entry W movie_name original_movie_name movie_year new_url s st =
        (if title_is_accurate (SequenceMatcher_ratio W) current_movie_name
              original_movie_name True \<and>
            PStr current_movie_year = movie_year
         then (Inr True,
               st\<lparr>info := (info st)(movie_name \<mapsto>
                      d(str ''imdb_rating'' \<mapsto> PStr (strip r)))\<rparr>)
         else (Inr False, st))) \<and>
   ((\<forall>item\<in>set pre. \<exists>link links. item = link # links \<and>
        examine_entry W movie_name original_movie_name movie_year
          (str ''https://www.imdb.com'' @ a_href link) s st = (Inr False, st)) \<and>
    examine_entry W movie_name original_movie_name movie_year
      (str ''https://www.imdb.com'' @ a_href accepted) s st = (Inr True, st') \<longrightarrow>
      scan_search_items W movie_name original_movie_name movie_year s
        (pre @ (accepted # links) # rest) st = (Inr (), st'))"
proof (intro conjI impI)
  assume "session_get W new_url = Inr res \<and> ok res \<and>
    current_movie_name_of (parsed res) = Inr current_movie_name \<and>
    current_movie_year_of (parsed res) = Inr current_movie_year \<and>
    ratingValue (parsed res) = Some r \<and> info st movie_name = Some d"
  then show "examine_entry W movie_name original_movie_name movie_year new_url s st =
        (if title_is_accurate (SequenceMatcher_ratio W) current_movie_name
              original_movie_name True \<and>
            PStr current_movie_year = movie_year
         then (Inr True,
               st\<lparr>info := (info st)(movie_name \<mapsto>
                      d(str ''imdb_rating'' \<mapsto> PStr (strip r)))\<rparr>)
         else (Inr False, st))"
    by (simp add: examine_entry_def soup_from_url_def)
next
  assume a: "(\<forall>item\<in>set pre. \<exists>link links. item = link # links \<and>
        examine_entry W movie_name original_movie_name movie_year
          (str ''https://www.imdb.com'' @ a_href link) s st = (Inr False, st)) \<and>
    examine_entry W movie_name original_movie_name movie_year
      (str ''https://www.imdb.com'' @ a_href accepted) s st = (Inr True, st')"
  then have "scan_search_items W movie_name original_movie_name movie_year s
        (pre @ (accepted # links) # rest) st =
     scan_search_items W movie_name original_movie_name movie_year s
        ((accepted # links) # rest) st"
    using scan_search_items_skip[of pre W movie_name original_movie_name movie_year s st]
    by blast
  with a show "scan_search_items W movie_name original_movie_name movie_year s
        (pre @ (accepted # links) # rest) st = (Inr (), st')"
    by simp
qed

text \<open>
  The year test is Python's \<open>==\<close> between the page's text and the query year. With
  the year given as an integer, an entry whose page shows that year is not accepted.
\<close>

lemma examine_entry_int_year:
  "examine_entry (world_of example_page) (str ''Up'') (str ''up'') (PInt 2009) url Session st =
   (Inr False, st)"
  by (simp add: examine_entry_def soup_from_url_world_of name_of_example_page
      year_of_example_page)

lemma sign_in_imdb_world:
  "sign_in_to_imdb (imdb_world p) initialised_state = (Inr Session, initialised_state)"
proof -
  have g: "soup_from_url (imdb_world p) IMDB_SIGNIN_URL None st = (Inr signin_page, st)" for st
    by (simp add: soup_from_url_def imdb_world_def ok_response_def)
  have l: "list_group_item signin_page = Some (Some (str ''https://www.imdb.com/ap/signin''))"
    by (simp add: signin_page_def blank_page_def)
  have c: "imdb_credentials initialised_state (str ''email'') = Some (str ''a@b.c'')"
    "imdb_credentials initialised_state (str ''password'') = Some (str ''pw'')"
    by (simp_all add: initialised_state_def example_state_def str_def)
  have p: "session_post (imdb_world p) (Some (str ''https://www.imdb.com/ap/signin'')) e w = Inr ()"
    for e w
    by (simp add: imdb_world_def)
  show ?thesis
    unfolding sign_in_to_imdb_def by (simp add: g l c p)
qed

lemma up_find_url: "join_words (str ''+'') (split (str ''up'') (str '' '')) = Inr (str ''up'')"
  by (simp add: join_words_def split_def str_def startswith_def)

lemma fetch_results:
  "soup_from_url (imdb_world p) (str ''https://www.imdb.com/find?q='' @ str ''up'' @
     str ''&ref_=nv_sr_sm'') (Some Session) st = (Inr results_page, st)"
  by (simp add: soup_from_url_def imdb_world_def ok_response_def str_def)

lemma fetch_tt0:
  "soup_from_url (imdb_world p) (str ''https://www.imdb.com'' @ a_href (result_link ''/title/tt0/''))
     (Some Session) st = (Inr down_page, st)"
  by (simp add: soup_from_url_def imdb_world_def ok_response_def result_link_def str_def)

lemma fetch_tt1:
  "soup_from_url (imdb_world p) (str ''https://www.imdb.com'' @ a_href (result_link ''/title/tt1/''))
     (Some Session) st = (Inr p, st)"
  by (simp add: soup_from_url_def imdb_world_def ok_response_def result_link_def str_def)

lemma name_of_down_page: "current_movie_name_of down_page = Inr (str ''down'')"
  by (simp add: current_movie_name_of_def down_page_def blank_page_def str_def split_def
      startswith_def strip_def isspace_def lower_def lower_full_def lower_cp_def)

lemma name_of_up_page: "current_movie_name_of up_page = Inr (str ''up'')"
  by (simp add: current_movie_name_of_def up_page_def blank_page_def str_def split_def
      startswith_def strip_def isspace_def lower_def lower_full_def lower_cp_def)

lemma name_of_title_only_page: "current_movie_name_of up_title_only_page = Inl AttributeError"
  by (simp add: current_movie_name_of_def up_title_only_page_def blank_page_def)

lemma year_of_pages:
  "current_movie_year_of down_page = Inr (str ''2009'')"
  "current_movie_year_of up_page = Inr (str ''2009'')"
  by (simp_all add: current_movie_year_of_def down_page_def up_page_def blank_page_def str_def
      strip_def isspace_def)

lemma examine_down:
  "examine_entry (imdb_world p) (str ''Up'') (str ''up'') y
     (str ''https://www.imdb.com'' @ a_href (result_link ''/title/tt0/'')) Session st
   = (Inr False, st)"
  by (simp add: examine_entry_def fetch_tt0 name_of_down_page year_of_pages not_accurate_down)

lemma examine_up_str_year:
  "examine_entry (imdb_world up_page) (str ''Up'') (str ''up'') (PStr (str ''2009''))
     (str ''https://www.imdb.com'' @ a_href (result_link ''/title/tt1/'')) Session
     initialised_state
   = (Inr True, initialised_state\<lparr>info :=
        [str ''Up'' \<mapsto> [str ''imdb_rating'' \<mapsto> PStr (str ''8.3'')]]\<rparr>)"
proof -
  have r: "ratingValue up_page = Some (str ''8.3'')" by (simp add: up_page_def blank_page_def)
  have s: "strip (str ''8.3'') = str ''8.3''" by (simp add: str_def strip_def isspace_def)
  have i: "info initialised_state = [str ''Up'' \<mapsto> Map.empty]"
    by (simp add: initialised_state_def)
  show ?thesis
    by (simp add: examine_entry_def fetch_tt1 name_of_up_page year_of_pages accurate_up r s i)
qed

lemma examine_up_int_year:
  "examine_entry (imdb_world up_page) (str ''Up'') (str ''up'') (PInt 2009)
     (str ''https://www.imdb.com'' @ a_href (result_link ''/title/tt1/'')) Session st
   = (Inr False, st)"
  by (simp add: examine_entry_def fetch_tt1 name_of_up_page year_of_pages)

lemma examine_title_only:
  "examine_entry (imdb_world up_title_only_page) (str ''Up'') (str ''up'') y
     (str ''https://www.imdb.com'' @ a_href (result_link ''/title/tt1/'')) Session st
   = (Inl AttributeError, st)"
  by (simp add: examine_entry_def fetch_tt1 name_of_title_only_page)

lemma imdb_to_scan:
  "get_useful_information_from_imdb (imdb_world p) (str ''Up'') (str ''up'') y initialised_state =
   scan_search_items (imdb_world p) (str ''Up'') (str ''up'') y Session
     [[result_link ''/title/tt0/''], [result_link ''/title/tt1/'']] initialised_state"
proof -
  have r: "result_text results_page = [[result_link ''/title/tt0/''], [result_link ''/title/tt1/'']]"
    by (simp add: results_page_def blank_page_def)
  show ?thesis
    unfolding get_useful_information_from_imdb_def Let_def
    by (simp add: sign_in_imdb_world up_find_url fetch_results r)
qed

text \<open>
  Whatever the web answers: with the query year given as an integer no entry is accepted,
  and a detail page without an \<open>originalTitle\<close> element makes the title raise.
\<close>

lemma int_year_never_accepted:
  "fst (examine_entry W movie_name original_movie_name (PInt y) new_url s st) \<noteq> Inr True"
  unfolding examine_entry_def
  by (auto split: sum.splits prod.splits option.splits)

lemma primary_title_always_raises:
  "originalTitle soup = None \<Longrightarrow> current_movie_name_of soup = Inl AttributeError"
  by (simp add: current_movie_name_of_def)

text \<open>
  C8 fails on the code. The second search result is a detail page for \<open>Up\<close> of 2009 with
  the rating 8.3. With the query year given as the string \<open>2009\<close> the entry is accepted
  and the rating stored. With the query year given as the integer 2009 the same entry is
  not accepted, because the page's year text never equals an integer, and no rating is
  stored. When the detail page has no \<open>originalTitle\<close> element, reading the primary
  title raises AttributeError, the logger call of the handler raises TypeError, and the
  scan ends with that exception.
\<close>

theorem matcher_misses_accurate_entry:
  "get_useful_information_from_imdb (imdb_world up_page) (str ''Up'') (str ''up'')
     (PStr (str ''2009'')) initialised_state =
     (Inr (), initialised_state\<lparr>info :=
        [str ''Up'' \<mapsto> [str ''imdb_rating'' \<mapsto> PStr (str ''8.3'')]]\<rparr>) \<and>
   get_useful_information_from_imdb (imdb_world up_page) (str ''Up'') (str ''up'')
     (PInt 2009) initialised_state = (Inr (), initialised_state) \<and>
   get_useful_information_from_imdb (imdb_world up_title_only_page) (str ''Up'') (str ''up'')
     (PStr (str ''2009'')) initialised_state = (Inl TypeError, initialised_state)"
  by (simp add: imdb_to_scan examine_down examine_up_str_year examine_up_int_year
      examine_title_only Logger_log_def)

section \<open>Properties of the enrichment pipeline\<close>

lemma Logger_log_info: "Logger_log W args st = (r, st') \<Longrightarrow> info st' = info st"
  by (auto simp: Logger_log_def Let_def split: if_splits option.splits)

lemma soup_from_url_info: "soup_from_url W url s st = (r, st') \<Longrightarrow> info st' = info st"
  by (auto simp: soup_from_url_def split: sum.splits if_splits prod.splits dest: Logger_log_info)

lemma scan_possible_movies_info:
  "scan_possible_movies W movie_name year cs cur st = (r, st') \<Longrightarrow> info st' = info st"
proof (induction cs)
  case Nil
  then show ?case by simp
next
  case (Cons c cs)
  then show ?case
    by (auto split: sum.splits bool.splits prod.splits dest: soup_from_url_info)
qed

lemma find_original_name_info:
  "find_original_name W movie_name movie_year st = (r, st') \<Longrightarrow> info st' = info st"
  unfolding find_original_name_def Let_def
  by (auto split: sum.splits prod.splits
      dest!: soup_from_url_info Logger_log_info scan_possible_movies_info)

lemma filmaffinity_dom:
  "get_useful_information_from_filmaffinity W movie_name movie_year st = (r, st') \<Longrightarrow>
   dom (info st) \<subseteq> dom (info st') \<and> dom (info st') \<subseteq> insert movie_name (dom (info st))"
  unfolding get_useful_information_from_filmaffinity_def
  by (auto split: sum.splits prod.splits dest!: find_original_name_info)

lemma sign_in_to_imdb_info: "sign_in_to_imdb W st = (r, st') \<Longrightarrow> info st' = info st"
  unfolding sign_in_to_imdb_def
  by (auto split: sum.splits prod.splits option.splits dest!: soup_from_url_info)

lemma examine_entry_dom:
  "examine_entry W movie_name original_movie_name movie_year new_url s st = (r, st') \<Longrightarrow>
   dom (info st') = dom (info st)"
  unfolding examine_entry_def
  by (auto split: sum.splits prod.splits option.splits if_splits dest!: soup_from_url_info)

lemma scan_search_items_dom:
  "scan_search_items W movie_name original_movie_name movie_year s items st = (r, st') \<Longrightarrow>
   dom (info st') = dom (info st)"
proof (induction items arbitrary: st)
  case Nil
  then show ?case by simp
next
  case (Cons item items)
  show ?case
  proof (cases "first item")
    case (Inl e)
    with Cons.prems show ?thesis by simp
  next
    case (Inr link)
    obtain r1 st1 where ex: "examine_entry W movie_name original_movie_name movie_year
        (str ''https://www.imdb.com'' @ a_href link) s st = (r1, st1)" by force
    note d1 = examine_entry_dom[OF ex]
    show ?thesis
    proof (cases r1)
      case (Inl e)
      obtain r2 st2 where lg: "Logger_log W [PStr (exception_text e)] st1 = (r2, st2)" by force
      note d2 = Logger_log_info[OF lg]
      show ?thesis using Cons.prems Cons.IH[of st2] Inr ex Inl lg d1 d2
        by (cases r2) (auto simp: Let_def)
    next
      case (Inr b)
      show ?thesis using Cons.prems Cons.IH[of st1] \<open>first item = Inr link\<close> ex Inr d1
        by (cases b) (auto simp: Let_def)
    qed
  qed
qed

lemma imdb_dom:
  assumes "get_useful_information_from_imdb W movie_name original_movie_name movie_year st = (r, st')"
  shows "dom (info st') = dom (info st)"
proof -
  obtain r1 st1 where si: "sign_in_to_imdb W st = (r1, st1)" by force
  note i1 = sign_in_to_imdb_info[OF si]
  show ?thesis
  proof (cases r1)
    case (Inl e)
    with assms si i1 show ?thesis
      by (simp add: get_useful_information_from_imdb_def)
  next
    case s: (Inr s)
    show ?thesis
    proof (cases "join_words (str ''+'') (split original_movie_name (str '' ''))")
      case (Inl e)
      with assms si i1 s show ?thesis
        by (simp add: get_useful_information_from_imdb_def Let_def)
    next
      case jw: (Inr parsed_movie_name)
      obtain r2 st2 where sp: "soup_from_url W
          (str ''https://www.imdb.com/find?q='' @ parsed_movie_name @ str ''&ref_=nv_sr_sm'')
          (Some s) st1 = (r2, st2)" by force
      note i2 = soup_from_url_info[OF sp]
      show ?thesis
      proof (cases r2)
        case (Inl e)
        with assms si i1 s jw sp i2 show ?thesis
          by (simp add: get_useful_information_from_imdb_def Let_def)
      next
        case (Inr soup)
        with assms si s jw sp
        have "scan_search_items W movie_name original_movie_name movie_year s
                (result_text soup) st2 = (r, st')"
          by (simp add: get_useful_information_from_imdb_def Let_def)
        from scan_search_items_dom[OF this] i1 i2 show ?thesis by simp
      qed
    qed
  qed
qed

lemma complete_each_dom:
  "complete_each W verbose ms st = (r, st') \<Longrightarrow>
   dom (info st) \<subseteq> dom (info st') \<and> dom (info st') \<subseteq> dom (info st) \<union> fst ` set ms"
proof (induction ms arbitrary: st)
  case Nil
  then show ?case by simp
next
  case (Cons m ms)
  obtain movie year where m: "m = (movie, year)" by (cases m)
  obtain r1 st1 where fa: "get_useful_information_from_filmaffinity W movie year st = (r1, st1)"
    by force
  note d1 = filmaffinity_dom[OF fa]
  show ?case
  proof (cases r1)
    case (Inl e)
    with Cons.prems m fa d1 show ?thesis by auto
  next
    case (Inr u)
    show ?thesis
    proof (cases "original_name_lower st1 movie")
      case (Inl e)
      with Cons.prems m fa d1 \<open>r1 = Inr u\<close> show ?thesis by auto
    next
      case on: (Inr original_name)
      obtain r2 st2 where im:
        "get_useful_information_from_imdb W movie original_name year st1 = (r2, st2)" by force
      note d2 = imdb_dom[OF im]
      show ?thesis
      proof (cases r2)
        case (Inl e)
        with Cons.prems m fa d1 \<open>r1 = Inr u\<close> on im d2 show ?thesis by auto
      next
        case (Inr u2)
        with Cons.prems m fa \<open>r1 = Inr u\<close> on im
        have "complete_each W verbose ms st2 = (r, st')" by simp
        from Cons.IH[OF this]
        have ih: "dom (info st2) \<subseteq> dom (info st')"
          "dom (info st') \<subseteq> dom (info st2) \<union> fst ` set ms" by blast+
        have im: "fst ` set (m # ms) = insert movie (fst ` set ms)" using m by simp
        show ?thesis unfolding im using ih d1 d2 by blast
      qed
    qed
  qed
qed

text \<open>
  C1, as amended. \<open>complete_information\<close> creates a dictionary for every input title
  before the first lookup, and no lookup removes one: after the run, whether it returned
  or raised, the result mapping has an entry for exactly the input titles.
\<close>

theorem complete_information_keys:
  "dom (info (snd (complete_information W verbose st))) = fst ` set (movies st)"
proof -
  define st0 where
    "st0 = st\<lparr>info := map_of (map (\<lambda>movie_name. (movie_name, Map.empty)) (map fst (movies st)))\<rparr>"
  have d0: "dom (info st0) = fst ` set (movies st)"
    by (simp add: st0_def dom_map_of_conv_image_fst image_image)
  have m0: "movies st0 = movies st" by (simp add: st0_def)
  obtain r st' where c: "complete_each W verbose (movies st) st0 = (r, st')" by force
  have "complete_information W verbose st = complete_each W verbose (movies st0) st0"
    unfolding complete_information_def Let_def st0_def by (rule refl)
  then have "complete_information W verbose st = (r, st')"
    using c m0 by simp
  with complete_each_dom[OF c] d0 show ?thesis by auto
qed

text \<open>
  C1 as stated fails: nothing in \<open>complete_information\<close> catches an exception of a
  lookup. On a page without a synopsis element the resolver raises AttributeError and the
  batch ends there.
\<close>

theorem complete_information_raises:
  "fst (complete_information (world_of no_synopsis_page) False example_state) = Inl AttributeError"
proof -
  have "get_useful_information_from_filmaffinity (world_of no_synopsis_page) (str ''Up'') y st
        = (Inl AttributeError, st)" for y st
    using find_original_name_example[of no_synopsis_page y st]
    by (simp add: get_useful_information_from_filmaffinity_def useful_information_def
        no_synopsis_page_def example_page_def)
  then show ?thesis
    by (simp add: complete_information_def example_state_def)
qed

text \<open>
  A run that completes: one movie, a result page with a single \<open>movie-info\<close> block, a
  synopsis and no critic block, and a detail page on the second site with the same title,
  the same year and a rating.
\<close>

lemma clean_up: "clean_string (str ''Up'') = str ''Up''"
  unfolding clean_string_def Let_def
  by (simp add: str_def replace_def strip_def isspace_def endswith_def startswith_def)

lemma clean_story: "clean_string (strip (str ''A story'')) = str ''A story''"
  unfolding clean_string_def Let_def
  by (simp add: str_def replace_def strip_def isspace_def endswith_def startswith_def)

lemma filmaffinity_example:
  "get_useful_information_from_filmaffinity (world_of example_page) (str ''Up'')
     (PStr (str ''2009'')) st =
   (Inr (), st\<lparr>info := (info st)(str ''Up'' \<mapsto>
      [str ''original name'' \<mapsto> PStr (str ''Up''), str ''year'' \<mapsto> PStr (str ''2009''),
       str ''synopsis'' \<mapsto> PStr (str ''A story.''), str ''critics'' \<mapsto> PNone,
       str ''imdb_rating'' \<mapsto> PNone])\<rparr>)"
proof -
  have 1: "find_original_name (world_of example_page) (str ''Up'') (PStr (str ''2009'')) st
           = (Inr (example_page, str ''Up''), st)"
    by (rule find_original_name_example) (simp add: example_page_def)
  have 2: "useful_information (number_critics st) example_page (str ''Up'') (PStr (str ''2009''))
           = Inr [str ''original name'' \<mapsto> PStr (str ''Up''), str ''year'' \<mapsto> PStr (str ''2009''),
       str ''synopsis'' \<mapsto> PStr (str ''A story.''), str ''critics'' \<mapsto> PNone,
       str ''imdb_rating'' \<mapsto> PNone]"
    unfolding useful_information_def Let_def
    by (simp add: example_page_def clean_up clean_story extract_critics_def)
      (simp add: str_def endswith_def)
  show ?thesis
    by (simp add: get_useful_information_from_filmaffinity_def 1 2)
qed

lemma imdb_example:
  "info st (str ''Up'') = Some d \<Longrightarrow>
   imdb_credentials st = [str ''email'' \<mapsto> e, str ''password'' \<mapsto> p] \<Longrightarrow>
   get_useful_information_from_imdb (world_of example_page) (str ''Up'') (str ''up'')
     (PStr (str ''2009'')) st =
   (Inr (), st\<lparr>info := (info st)(str ''Up'' \<mapsto> d(str ''imdb_rating'' \<mapsto> PStr (str ''8.3'')))\<rparr>)"
proof -
  assume i: "info st (str ''Up'') = Some d"
    and c: "imdb_credentials st = [str ''email'' \<mapsto> e, str ''password'' \<mapsto> p]"
  have sp: "session_post (world_of example_page) u a b = Inr ()" for u a b
    by (simp add: world_of_def)
  have lg: "list_group_item example_page = Some (Some (str ''https://www.imdb.com/ap/signin''))"
    by (simp add: example_page_def)
  have ne: "str ''email'' \<noteq> str ''password''" by (simp add: str_def)
  have si: "sign_in_to_imdb (world_of example_page) st = (Inr Session, st)"
    unfolding sign_in_to_imdb_def
    by (simp add: soup_from_url_world_of c lg sp ne)
  have jw: "join_words (str ''+'') (split (str ''up'') (str '' '')) = Inr (str ''up'')"
    by (simp add: join_words_def split_def str_def startswith_def)
  have r: "ratingValue example_page = Some (str ''8.3'')" by (simp add: example_page_def)
  have s: "strip (str ''8.3'') = str ''8.3''" by (simp add: str_def strip_def isspace_def)
  have ex: "examine_entry (world_of example_page) (str ''Up'') (str ''up'') (PStr (str ''2009''))
      url Session st =
      (Inr True, st\<lparr>info := (info st)(str ''Up'' \<mapsto> d(str ''imdb_rating'' \<mapsto> PStr (str ''8.3'')))\<rparr>)"
    for url
    by (simp add: examine_entry_def soup_from_url_world_of name_of_example_page
        year_of_example_page accurate_up r s i)
  have rt: "result_text example_page = [[\<lparr>a_title = None, a_href = str ''/title/tt1/''\<rparr>]]"
    by (simp add: example_page_def)
  show ?thesis
    unfolding get_useful_information_from_imdb_def Let_def
    by (simp add: si jw soup_from_url_world_of rt ex)
qed

lemma complete_information_example:
  "complete_information (world_of example_page) False example_state =
   (Inr (), example_state\<lparr>info := [str ''Up'' \<mapsto>
      [str ''original name'' \<mapsto> PStr (str ''Up''), str ''year'' \<mapsto> PStr (str ''2009''),
       str ''synopsis'' \<mapsto> PStr (str ''A story.''), str ''critics'' \<mapsto> PNone,
       str ''imdb_rating'' \<mapsto> PStr (str ''8.3'')]]\<rparr>)"
proof -
  define st0 where "st0 = example_state\<lparr>info := [str ''Up'' \<mapsto> Map.empty]\<rparr>"
  define d where "d = [str ''original name'' \<mapsto> PStr (str ''Up''), str ''year'' \<mapsto> PStr (str ''2009''),
       str ''synopsis'' \<mapsto> PStr (str ''A story.''), str ''critics'' \<mapsto> PNone,
       str ''imdb_rating'' \<mapsto> PNone]"
  define st1 where "st1 = st0\<lparr>info := (info st0)(str ''Up'' \<mapsto> d)\<rparr>"
  have fa: "get_useful_information_from_filmaffinity (world_of example_page) (str ''Up'')
     (PStr (str ''2009'')) st0 = (Inr (), st1)"
    using filmaffinity_example[of st0] by (simp add: st1_def d_def)
  have on: "original_name_lower st1 (str ''Up'') = Inr (str ''up'')"
    by (simp add: original_name_lower_def st1_def d_def)
      (simp add: str_def lower_def lower_full_def lower_cp_def)
  have i1: "info st1 (str ''Up'') = Some d" by (simp add: st1_def)
  have c1: "imdb_credentials st1 = [str ''email'' \<mapsto> str ''a@b.c'', str ''password'' \<mapsto> str ''pw'']"
    by (simp add: st1_def st0_def example_state_def)
  note im = imdb_example[OF i1 c1]
  have "complete_information (world_of example_page) False example_state =
        complete_each (world_of example_page) False [(str ''Up'', PStr (str ''2009''))] st0"
    by (simp add: complete_information_def st0_def example_state_def)
  also have "\<dots> = (Inr (), st1\<lparr>info := (info st1)(str ''Up'' \<mapsto> d(str ''imdb_rating'' \<mapsto> PStr (str ''8.3'')))\<rparr>)"
    by (simp add: fa on im)
  finally show ?thesis
    by (simp add: st1_def st0_def d_def example_state_def)
qed

end
